theory Spec2Isabelle
  imports Main
begin

section \<open>Video record store (lib/videoStore.ts)\<close>

text \<open>
  The store is one SQLite table keyed by the upload id. A row is modelled as a record,
  the table as a map from ids to rows. JavaScript's \<open>undefined\<close> and SQL's \<open>NULL\<close> are
  both \<open>None\<close>; timestamps are natural numbers.
\<close>

datatype video_status = Uploading | Processing | Completed | Failed

datatype callback_status = CbPending | CbCompleted | CbFailed

datatype upload_type = Direct | Tus

record VideoRecord =
  id_rec :: string
  filename :: string
  status :: video_status
  progress :: int
  streamUrl :: "string option"
  thumbnailUrl :: "string option"
  createdAt :: nat
  completedAt :: "nat option"
  error :: "string option"
  packager :: "string option"
  callbackUrl :: "string option"
  callbackStatus :: callback_status
  callbackRetryCount :: int
  callbackLastAttempt :: "nat option"
  s3Path :: "string option"
  uploadToS3 :: bool
  mp4Url :: "string option"
  uploadType :: upload_type

type_synonym video_store = "string \<Rightarrow> VideoRecord option"

text \<open>\<open>x || null\<close> on an optional string: the empty string is falsy and is stored as NULL.\<close>

definition orNull :: "string option \<Rightarrow> string option" where
  "orNull x = (case x of None \<Rightarrow> None | Some s \<Rightarrow> if s = [] then None else Some s)"

text \<open>The column values bound by the INSERT and UPDATE statements for an in-memory record.\<close>

definition toRow :: "VideoRecord \<Rightarrow> VideoRecord" where
  "toRow r = r\<lparr> streamUrl := orNull (streamUrl r),
               thumbnailUrl := orNull (thumbnailUrl r),
               error := orNull (error r),
               packager := orNull (packager r),
               callbackUrl := orNull (callbackUrl r),
               s3Path := orNull (s3Path r),
               mp4Url := orNull (mp4Url r) \<rparr>"

definition getVideoRecord :: "string \<Rightarrow> video_store \<Rightarrow> VideoRecord option" where
  "getVideoRecord i st = st i"

text \<open>
  \<open>Partial<VideoRecord>\<close>, with the keys that callers of \<open>updateVideoRecord\<close> pass. A key
  that is absent is \<open>None\<close>. The key \<open>error\<close> is also passed with the value
  \<open>undefined\<close>, which is \<open>Some None\<close>.
\<close>

record VideoPatch =
  p_filename :: "string option"
  p_status :: "video_status option"
  p_progress :: "int option"
  p_streamUrl :: "string option"
  p_thumbnailUrl :: "string option"
  p_error :: "string option option"
  p_callbackStatus :: "callback_status option"
  p_callbackRetryCount :: "int option"
  p_callbackLastAttempt :: "nat option"
  p_mp4Url :: "string option"

definition no_patch :: VideoPatch where
  "no_patch = \<lparr> p_filename = None, p_status = None, p_progress = None, p_streamUrl = None,
                p_thumbnailUrl = None, p_error = None, p_callbackStatus = None,
                p_callbackRetryCount = None, p_callbackLastAttempt = None, p_mp4Url = None \<rparr>"

text \<open>The object spread \<open>{ ...record, ...updates }\<close>.\<close>

definition spread :: "VideoRecord \<Rightarrow> VideoPatch \<Rightarrow> VideoRecord" where
  "spread r p = r\<lparr>
     filename := (case p_filename p of None \<Rightarrow> filename r | Some v \<Rightarrow> v),
     status := (case p_status p of None \<Rightarrow> status r | Some v \<Rightarrow> v),
     progress := (case p_progress p of None \<Rightarrow> progress r | Some v \<Rightarrow> v),
     streamUrl := (case p_streamUrl p of None \<Rightarrow> streamUrl r | Some v \<Rightarrow> Some v),
     thumbnailUrl := (case p_thumbnailUrl p of None \<Rightarrow> thumbnailUrl r | Some v \<Rightarrow> Some v),
     error := (case p_error p of None \<Rightarrow> error r | Some v \<Rightarrow> v),
     callbackStatus := (case p_callbackStatus p of None \<Rightarrow> callbackStatus r | Some v \<Rightarrow> v),
     callbackRetryCount :=
       (case p_callbackRetryCount p of None \<Rightarrow> callbackRetryCount r | Some v \<Rightarrow> v),
     callbackLastAttempt :=
       (case p_callbackLastAttempt p of None \<Rightarrow> callbackLastAttempt r | Some v \<Rightarrow> Some v),
     mp4Url := (case p_mp4Url p of None \<Rightarrow> mp4Url r | Some v \<Rightarrow> Some v) \<rparr>"

text \<open>
  The record that \<open>updateVideoRecord\<close> builds from the current one at time \<open>now\<close>: the
  spread, and \<open>completedAt\<close> when the patch sets the status to \<open>completed\<close>.
\<close>

definition applyUpdates :: "nat \<Rightarrow> VideoRecord \<Rightarrow> VideoPatch \<Rightarrow> VideoRecord" where
  "applyUpdates now record updates =
     (let merged = spread record updates
      in if p_status updates = Some Completed then merged\<lparr> completedAt := Some now \<rparr>
         else merged)"

text \<open>
  \<open>updateVideoRecord(id, updates)\<close>: the merged in-memory record is returned, its row is
  written. An unknown id returns \<open>undefined\<close> before any statement runs.
\<close>

definition updateVideoRecord ::
  "nat \<Rightarrow> string \<Rightarrow> VideoPatch \<Rightarrow> video_store \<Rightarrow> VideoRecord option \<times> video_store" where
  "updateVideoRecord now i updates st =
     (case getVideoRecord i st of
        None \<Rightarrow> (None, st)
      | Some record \<Rightarrow>
          let updatedRecord = applyUpdates now record updates
          in (Some updatedRecord, st(i \<mapsto> toRow updatedRecord)))"

text \<open>
  The conditional UPDATE of \<open>safelyTransitionToProcessing\<close>: its WHERE clause, and the
  statement itself, which returns the number of changed rows with the new table.
\<close>

definition transition_where :: "VideoRecord \<Rightarrow> bool" where
  "transition_where r \<longleftrightarrow>
     status r = Uploading \<or> status r = Failed \<or> (status r = Processing \<and> progress r \<le> 10)"

definition transition_update :: "string \<Rightarrow> video_store \<Rightarrow> nat \<times> video_store" where
  "transition_update i st =
     (case st i of
        None \<Rightarrow> (0, st)
      | Some r \<Rightarrow> if transition_where r
                  then (1, st(i \<mapsto> r\<lparr> status := Processing, progress := 10 \<rparr>))
                  else (0, st))"

definition safelyTransitionToProcessing ::
  "string \<Rightarrow> video_store \<Rightarrow> (bool \<times> VideoRecord option) \<times> video_store" where
  "safelyTransitionToProcessing i st =
     (case getVideoRecord i st of
        None \<Rightarrow> ((False, None), st)
      | Some currentRecord \<Rightarrow>
          if status currentRecord = Completed then ((False, Some currentRecord), st)
          else if status currentRecord = Processing \<and> progress currentRecord > 10
               then ((False, Some currentRecord), st)
          else (case transition_update i st of
                  (changes, st') \<Rightarrow>
                    if changes > 0 then ((True, getVideoRecord i st'), st')
                    else ((False, getVideoRecord i st'), st')))"

text \<open>
  The sweeper's query \<open>getVideosWithPendingCallbacks\<close>: the predicate of its WHERE clause
  and the rows it selects (without their order).
\<close>

definition pending_callback_where :: "VideoRecord \<Rightarrow> bool" where
  "pending_callback_where r \<longleftrightarrow>
     callbackUrl r \<noteq> None \<and> callbackStatus r = CbPending \<and> callbackRetryCount r < 4
     \<and> status r = Completed"

definition getVideosWithPendingCallbacks :: "video_store \<Rightarrow> VideoRecord set" where
  "getVideosWithPendingCallbacks st = {r \<in> ran st. pending_callback_where r}"

section \<open>Strings\<close>

text \<open>
  Strings are byte strings; the helpers below are the JavaScript string methods the
  source calls, on ASCII text.
\<close>

text \<open>\<open>s.includes(sub)\<close>.\<close>

fun includes_str :: "string \<Rightarrow> string \<Rightarrow> bool" where
  "includes_str [] sub = (sub = [])"
| "includes_str (c # cs) sub = (take (length sub) (c # cs) = sub \<or> includes_str cs sub)"

text \<open>\<open>xs.join(sep)\<close>.\<close>

fun join :: "string \<Rightarrow> string list \<Rightarrow> string" where
  "join sep [] = []"
| "join sep [x] = x"
| "join sep (x # y # ys) = x @ sep @ join sep (y # ys)"

text \<open>Decimal rendering of a number inside a template literal.\<close>

definition digit_char :: "nat \<Rightarrow> char" where
  "digit_char d = char_of (48 + d)"

fun show_nat :: "nat \<Rightarrow> string" where
  "show_nat n = (if n < 10 then [digit_char n] else show_nat (n div 10) @ [digit_char (n mod 10)])"

declare show_nat.simps [simp del]

definition show_int :: "int \<Rightarrow> string" where
  "show_int k = (if k < 0 then CHR ''-'' # show_nat (nat (- k)) else show_nat (nat k))"

text \<open>\<open>s.trim()\<close>, for the ASCII white space characters.\<close>

definition is_space :: "char \<Rightarrow> bool" where
  "is_space c \<longleftrightarrow> c \<in> set [CHR '' '', CHR 0x09, CHR 0x0A, CHR 0x0B, CHR 0x0C, CHR 0x0D]"

definition trim :: "string \<Rightarrow> string" where
  "trim s = rev (dropWhile is_space (rev (dropWhile is_space s)))"

text \<open>
  \<open>s.replace(/^\/|\/$/g, "")\<close>: one slash is removed at the start of the string and one
  at its end, when they are there.
\<close>

definition replace_slashes :: "string \<Rightarrow> string" where
  "replace_slashes s =
     (let s1 = (case s of [] \<Rightarrow> [] | c # cs \<Rightarrow> if c = CHR ''/'' then cs else c # cs)
      in if s1 \<noteq> [] \<and> last s1 = CHR ''/'' then butlast s1 else s1)"

text \<open>\<open>s.match(/^[a-zA-Z0-9/_-]+$/)\<close>.\<close>

definition is_s3path_char :: "char \<Rightarrow> bool" where
  "is_s3path_char c \<longleftrightarrow>
     (let n = (of_char c :: nat)
      in (97 \<le> n \<and> n \<le> 122) \<or> (65 \<le> n \<and> n \<le> 90) \<or> (48 \<le> n \<and> n \<le> 57)
         \<or> c = CHR ''/'' \<or> c = CHR ''_'' \<or> c = CHR ''-'')"

definition matches_s3path :: "string \<Rightarrow> bool" where
  "matches_s3path s \<longleftrightarrow> s \<noteq> [] \<and> list_all is_s3path_char s"

text \<open>\<open>s.toLowerCase()\<close>.\<close>

definition lower_char :: "char \<Rightarrow> char" where
  "lower_char c = (let n = (of_char c :: nat) in if 65 \<le> n \<and> n \<le> 90 then char_of (n + 32) else c)"

definition toLowerCase :: "string \<Rightarrow> string" where
  "toLowerCase s = map lower_char s"

text \<open>\<open>Math.round(n / (1024 * 1024))\<close> for an integer number of bytes: halves round up.\<close>

definition round_mb :: "int \<Rightarrow> int" where
  "round_mb n = (2 * n + 1048576) div 2097152"

section \<open>Configuration\<close>

text \<open>
  The module \<open>lib/environments\<close> and the library \<open>mime-types\<close> are parameters:
  \<open>maxSize\<close> is the value of \<open>parseSize(ENV.MAX_FILE_SIZE)\<close> (104857600 for the default
  \<open>"100mb"\<close>), \<open>mime_lookup\<close> is \<open>mime.lookup\<close>, with \<open>None\<close> for \<open>false\<close>.
\<close>

record config =
  S3_BUCKET :: string
  S3_ENDPOINT :: string
  VELLUM_HOST :: string
  ALLOWED_FILE_TYPES :: "string list"
  maxSize :: int
  mime_lookup :: "string \<Rightarrow> string option"

section \<open>Upload validator (lib/validation)\<close>

datatype ValidationError = ValidationError (err_field: string) (err_message: string)

record ValidationResult =
  isValid :: bool
  errors :: "ValidationError list"

definition validateFileSize :: "config \<Rightarrow> int \<Rightarrow> ValidationResult" where
  "validateFileSize cfg filesize =
     (if filesize \<le> 0
      then \<lparr> isValid = False,
             errors = [ValidationError ''filesize''
                         ''File size must be a positive number (bytes)''] \<rparr>
      else
        let errs =
          (if filesize > maxSize cfg
           then [ValidationError ''filesize''
                   (''File size ('' @ show_int (round_mb filesize)
                    @ ''MB) exceeds maximum allowed size (''
                    @ show_int (round_mb (maxSize cfg)) @ ''MB)'')]
           else [])
        in \<lparr> isValid = (length errs = 0), errors = errs \<rparr>)"

definition normalizeMimeType :: "string \<Rightarrow> string" where
  "normalizeMimeType mimeType = (if mimeType = ''application/mp4'' then ''video/mp4'' else mimeType)"

definition validateFileType :: "config \<Rightarrow> string \<Rightarrow> ValidationResult" where
  "validateFileType cfg fname =
     (if fname = []
      then \<lparr> isValid = False,
             errors = [ValidationError ''filename''
                         ''Filename is required and must be a string''] \<rparr>
      else
        (case orNull (mime_lookup cfg fname) of
           None \<Rightarrow> \<lparr> isValid = False,
                     errors = [ValidationError ''filename''
                                 ''Could not determine file type from filename''] \<rparr>
         | Some rawMimeType \<Rightarrow>
             let mimeType = normalizeMimeType rawMimeType;
                 errs =
                   (if mimeType \<notin> set (ALLOWED_FILE_TYPES cfg)
                    then [ValidationError ''filename''
                            (''File type '' @ [CHR 0x27] @ mimeType @ [CHR 0x27]
                             @ '' is not allowed. Allowed types: ''
                             @ join '', '' (ALLOWED_FILE_TYPES cfg))]
                    else [])
             in \<lparr> isValid = (length errs = 0), errors = errs \<rparr>))"

definition validateUpload :: "config \<Rightarrow> string \<Rightarrow> int \<Rightarrow> ValidationResult" where
  "validateUpload cfg fname filesize =
     (let fileTypeResult = validateFileType cfg fname;
          errs1 = (if \<not> isValid fileTypeResult then errors fileTypeResult else []);
          fileSizeResult = validateFileSize cfg filesize;
          allErrors = errs1 @ (if \<not> isValid fileSizeResult then errors fileSizeResult else [])
      in \<lparr> isValid = (length allErrors = 0), errors = allErrors \<rparr>)"

definition formatValidationErrors :: "ValidationError list \<Rightarrow> string" where
  "formatValidationErrors errs =
     (case errs of
        [e] \<Rightarrow> err_message e
      | _ \<Rightarrow> ''Multiple validation errors: '' @ join ''; '' (map err_message errs))"

section \<open>Session manager (controllers/video.Controller.ts, createVideoUpload)\<close>

text \<open>
  \<open>createVideoRecord(data)\<close> with the keys its caller passes. The INSERT fails on an id
  that is already a primary key; that exception is \<open>None\<close>.
\<close>

record create_data =
  d_id :: string
  d_filename :: string
  d_packager :: "string option"
  d_callbackUrl :: "string option"
  d_s3Path :: "string option"
  d_uploadToS3 :: bool
  d_uploadType :: string

definition createVideoRecord ::
  "nat \<Rightarrow> create_data \<Rightarrow> video_store \<Rightarrow> (VideoRecord \<times> video_store) option" where
  "createVideoRecord now d st =
     (let record = \<lparr> id_rec = d_id d, filename = d_filename d, status = Uploading, progress = 0,
                      streamUrl = None, thumbnailUrl = None, createdAt = now, completedAt = None,
                      error = None, packager = d_packager d, callbackUrl = d_callbackUrl d,
                      callbackStatus = CbPending, callbackRetryCount = 0,
                      callbackLastAttempt = None, s3Path = d_s3Path d,
                      uploadToS3 = d_uploadToS3 d, mp4Url = None,
                      uploadType = (if d_uploadType d = ''direct'' then Direct else Tus) \<rparr>
      in if st (d_id d) \<noteq> None then None
         else Some (record, st(d_id d \<mapsto> toRow record)))"

text \<open>
  The request body. A missing \<open>filename\<close> is the empty string and a missing \<open>filesize\<close>
  is 0 (both falsy); \<open>s3Path\<close> is a string and \<open>uploadToS3\<close> a boolean when present.
\<close>

record create_request =
  req_filename :: string
  req_filesize :: int
  req_packager :: "string option"
  req_callbackUrl :: "string option"
  req_s3Path :: "string option"
  req_uploadToS3 :: "bool option"
  req_type :: "string option"

record create_response =
  res_uploadId :: string
  res_uploadUrl :: string
  res_videoUrl :: string
  res_expiresIn :: nat
  res_mp4Url :: "string option"

text \<open>
  The validation of a session request: for \<open>type = "direct"\<close> the ceiling is 200 MiB and
  the errors of \<open>validateUpload\<close> whose message contains \<open>"File size"\<close> are dropped;
  otherwise \<open>validateUpload\<close> decides. \<open>Inl\<close> is the message of the early 400 reply.
\<close>

definition maxDirectUploadSize :: int where
  "maxDirectUploadSize = 200 * 1024 * 1024"

definition session_validation ::
  "config \<Rightarrow> string \<Rightarrow> string \<Rightarrow> int \<Rightarrow> string + ValidationResult" where
  "session_validation cfg type fname filesize =
     (if type = ''direct''
      then
        if filesize > maxDirectUploadSize
        then Inl (''File size ('' @ show_int (round_mb filesize)
                  @ ''MB) exceeds maximum allowed size for direct uploads (''
                  @ show_int (round_mb maxDirectUploadSize) @ ''MB)'')
        else
          let validationResult = validateUpload cfg fname filesize
          in if \<not> isValid validationResult
             then
               let nonSizeErrors =
                     filter (\<lambda>e. \<not> includes_str (err_message e) ''File size'')
                       (errors validationResult)
               in if length nonSizeErrors = 0 then Inr \<lparr> isValid = True, errors = [] \<rparr>
                  else Inr \<lparr> isValid = False, errors = nonSizeErrors \<rparr>
             else Inr validationResult
      else Inr (validateUpload cfg fname filesize))"

text \<open>The S3 key prefix, as both the session manager and the transcoder compute it.\<close>

definition s3PrefixOf :: "string option \<Rightarrow> string \<Rightarrow> string" where
  "s3PrefixOf path name =
     (case orNull path of None \<Rightarrow> name | Some p \<Rightarrow> replace_slashes p @ ''/'' @ name)"

text \<open>
  \<open>createVideoUpload\<close>, with the id that \<open>uuidv4()\<close> returns as a parameter. The result is
  the error reply (status code and message) or the data of the success reply.
\<close>

definition createVideoUpload ::
  "config \<Rightarrow> nat \<Rightarrow> string \<Rightarrow> create_request \<Rightarrow> video_store
   \<Rightarrow> ((nat \<times> string) + create_response) \<times> video_store" where
  "createVideoUpload cfg now uuid req st =
     (let fname = req_filename req;
          filesize = req_filesize req;
          pack = (case req_packager req of None \<Rightarrow> ''ffmpeg'' | Some p \<Rightarrow> p);
          toS3 = (case req_uploadToS3 req of None \<Rightarrow> False | Some b \<Rightarrow> b);
          type = (case req_type req of None \<Rightarrow> ''tus'' | Some t \<Rightarrow> t)
      in
      if fname = [] \<or> filesize = 0
      then (Inl (400, ''Missing required fields: filename and filesize''), st)
      else
        (case session_validation cfg type fname filesize of
           Inl msg \<Rightarrow> (Inl (400, msg), st)
         | Inr validationResult \<Rightarrow>
             if \<not> isValid validationResult
             then (Inl (400, formatValidationErrors (errors validationResult)), st)
             else if type \<noteq> [] \<and> type \<notin> set [''direct'', ''tus'']
             then (Inl (400, ''type must be either direct or tus''), st)
             else
               let cleanS3Path =
                     (case orNull (req_s3Path req) of
                        None \<Rightarrow> req_s3Path req
                      | Some p \<Rightarrow> Some (trim p))
               in
               if (case orNull cleanS3Path of None \<Rightarrow> False | Some c \<Rightarrow> \<not> matches_s3path c)
               then (Inl (400, ''s3Path contains invalid characters''), st)
               else
                 let uploadId = uuid;
                     uploadUrl =
                       (if type = ''direct''
                        then VELLUM_HOST cfg @ ''/api/v1/video/'' @ uploadId @ ''/upload''
                        else VELLUM_HOST cfg @ ''/api/v1/tus/files/'' @ uploadId)
                 in
                 (case createVideoRecord now
                         \<lparr> d_id = uploadId, d_filename = fname, d_packager = Some pack,
                           d_callbackUrl = req_callbackUrl req, d_s3Path = cleanS3Path,
                           d_uploadToS3 = toS3, d_uploadType = type \<rparr> st of
                    None \<Rightarrow> (Inl (500, ''Failed to create upload session''), st)
                  | Some (record, st') \<Rightarrow>
                      let s3Prefix = s3PrefixOf cleanS3Path uploadId;
                          videoUrl = S3_BUCKET cfg @ ''.'' @ S3_ENDPOINT cfg @ ''/'' @ s3Prefix
                                     @ ''/index.m3u8'';
                          mp4 = (if toS3
                                 then Some (S3_BUCKET cfg @ ''.'' @ S3_ENDPOINT cfg @ ''/''
                                            @ s3Prefix @ ''/video.mp4'')
                                 else None)
                      in (Inr \<lparr> res_uploadId = uploadId, res_uploadUrl = uploadUrl,
                                res_videoUrl = videoUrl, res_expiresIn = 3600,
                                res_mp4Url = mp4 \<rparr>, st'))))"

section \<open>Direct upload ingress (controllers/video.Controller.ts, directUpload)\<close>

text \<open>
  The job message published to the queue \<open>video_processing\<close>. A message that lacks
  the key \<open>uploadId\<close> has \<open>job_uploadId = None\<close>; a missing \<open>uploadToS3\<close> is falsy.
\<close>

record VideoProcessingMessage =
  job_uploadId :: "string option"
  job_filePath :: string
  job_filename :: string
  job_packager :: string
  job_callbackUrl :: "string option"
  job_s3Path :: "string option"
  job_uploadToS3 :: bool

text \<open>The file that multer hands to the handler.\<close>

record upload_file =
  originalname :: string
  file_size :: int
  file_path :: string

text \<open>\<open>path.dirname(p)\<close> for a path without trailing slashes.\<close>

definition path_dirname :: "string \<Rightarrow> string" where
  "path_dirname p =
     (if CHR ''/'' \<notin> set p then ''.''
      else let d = butlast (rev (dropWhile (\<lambda>c. c \<noteq> CHR ''/'') (rev p)))
           in if d = [] then ''/'' else d)"

text \<open>
  \<open>directUpload\<close>: the reply (status code and message), the store and the jobs published.
  Whether \<open>fs.renameSync\<close> and \<open>publishToQueue\<close> succeed are the parameters \<open>rename_ok\<close>
  and \<open>publish_ok\<close>; the removal of the temporary file on the error paths has no effect on
  the store and is left out.
\<close>

definition directUpload ::
  "config \<Rightarrow> nat \<Rightarrow> bool \<Rightarrow> bool \<Rightarrow> string \<Rightarrow> upload_file option \<Rightarrow> video_store
   \<Rightarrow> (nat \<times> string) \<times> video_store \<times> VideoProcessingMessage list" where
  "directUpload cfg now rename_ok publish_ok uploadId file st =
     (case file of
        None \<Rightarrow> ((400, ''No file uploaded''), st, [])
      | Some f \<Rightarrow>
          (case getVideoRecord uploadId st of
             None \<Rightarrow> ((404, ''Upload session not found''), st, [])
           | Some videoRecord \<Rightarrow>
               if status videoRecord \<noteq> Uploading
               then ((409, ''Upload session is not in uploading state''), st, [])
               else
                 let fname = (if originalname f \<noteq> [] then originalname f
                              else filename videoRecord);
                     validationResult = validateUpload cfg fname (file_size f)
                 in
                 if \<not> isValid validationResult
                 then ((400, formatValidationErrors (errors validationResult)), st, [])
                 else if \<not> rename_ok
                 then ((500, ''Failed to process uploaded file''), st, [])
                 else
                   let finalPath = path_dirname (file_path f) @ ''/'' @ uploadId
                   in
                   (case updateVideoRecord now uploadId
                           (no_patch\<lparr> p_progress := Some 0, p_filename := Some fname \<rparr>) st of
                      (None, st') \<Rightarrow> ((500, ''Failed to update upload session''), st', [])
                    | (Some updatedRecord, st') \<Rightarrow>
                        if \<not> publish_ok
                        then ((500, ''Failed to process file upload''), st', [])
                        else
                          ((200, ''File uploaded successfully, processing started''), st',
                           [\<lparr> job_uploadId = Some uploadId, job_filePath = finalPath,
                              job_filename = fname, job_packager = ''ffmpeg'',
                              job_callbackUrl = callbackUrl videoRecord,
                              job_s3Path = s3Path videoRecord,
                              job_uploadToS3 = uploadToS3 videoRecord \<rparr>]))))"

section \<open>Codec prober (controllers/utils/upload-utils.ts)\<close>

datatype strategy = Copy | Selective | Reencode

record VideoCodecInfo =
  videoCodec :: string
  audioCodec :: string
  videoProfile :: "string option"
  videoLevel :: "string option"
  containerFormat :: string
  isHlsCompatible :: bool
  recommendedStrategy :: strategy

definition hls_profiles :: "string list" where
  "hls_profiles = [''baseline'', ''main'', ''high'', ''constrained baseline'']"

definition isCompatibleWithHls :: "string \<Rightarrow> string \<Rightarrow> string option \<Rightarrow> bool" where
  "isCompatibleWithHls vCodec aCodec vProfile =
     (let isVideoCompatible =
            (vCodec = ''h264'' \<and>
             (case orNull vProfile of
                None \<Rightarrow> True
              | Some p \<Rightarrow> toLowerCase p \<in> set hls_profiles));
          isAudioCompatible = (aCodec = ''aac'')
      in isVideoCompatible \<and> isAudioCompatible)"

definition determineTranscodingStrategy :: "string \<Rightarrow> string \<Rightarrow> string option \<Rightarrow> strategy" where
  "determineTranscodingStrategy vCodec aCodec vProfile =
     (let isVideoH264Compatible =
            (vCodec = ''h264'' \<and>
             (case orNull vProfile of
                None \<Rightarrow> True
              | Some p \<Rightarrow> toLowerCase p \<in> set hls_profiles));
          isAudioAacCompatible = (aCodec = ''aac'')
      in if isVideoH264Compatible \<and> isAudioAacCompatible then Copy
         else if isVideoH264Compatible \<and> \<not> isAudioAacCompatible then Selective
         else Reencode)"

text \<open>
  The JSON that \<open>ffprobe\<close> prints: the streams (when the key is there) and the name
  of the container format.
\<close>

record probe_stream =
  codec_type :: string
  codec_name :: "string option"
  st_profile :: "string option"
  st_level :: "string option"

record probe_data =
  streams :: "probe_stream list option"
  format_name :: "string option"

definition strOrEmpty :: "string option \<Rightarrow> string" where
  "strOrEmpty x = (case x of None \<Rightarrow> [] | Some s \<Rightarrow> s)"

text \<open>
  \<open>probeVideoCodecs\<close> on the output of the probe; \<open>None\<close> is a probe that fails (the
  subprocess exits with an error, or its output does not parse), which the function
  rethrows as \<open>"Failed to probe video codecs"\<close>.
\<close>

definition probeVideoCodecs :: "probe_data option \<Rightarrow> string + VideoCodecInfo" where
  "probeVideoCodecs out =
     (case out of
        None \<Rightarrow> Inl ''Failed to probe video codecs''
      | Some data \<Rightarrow>
          let videoStream = (case streams data of None \<Rightarrow> None
                             | Some ss \<Rightarrow> find (\<lambda>s. codec_type s = ''video'') ss);
              audioStream = (case streams data of None \<Rightarrow> None
                             | Some ss \<Rightarrow> find (\<lambda>s. codec_type s = ''audio'') ss);
              vCodec = (case videoStream of None \<Rightarrow> [] | Some v \<Rightarrow> strOrEmpty (codec_name v));
              vProfile = (case videoStream of None \<Rightarrow> [] | Some v \<Rightarrow> strOrEmpty (st_profile v));
              vLevel = (case videoStream of None \<Rightarrow> [] | Some v \<Rightarrow> strOrEmpty (st_level v));
              aCodec = (case audioStream of None \<Rightarrow> [] | Some a \<Rightarrow> strOrEmpty (codec_name a));
              container = strOrEmpty (format_name data)
          in Inr \<lparr> videoCodec = vCodec, audioCodec = aCodec, videoProfile = Some vProfile,
                   videoLevel = Some vLevel, containerFormat = container,
                   isHlsCompatible = isCompatibleWithHls vCodec aCodec (Some vProfile),
                   recommendedStrategy =
                     determineTranscodingStrategy vCodec aCodec (Some vProfile) \<rparr>)"

text \<open>The value that \<open>transcodeAndUpload\<close> gives \<open>codecInfo\<close> when the probe throws.\<close>

definition unknownCodecInfo :: VideoCodecInfo where
  "unknownCodecInfo =
     \<lparr> videoCodec = ''unknown'', audioCodec = ''unknown'', videoProfile = None,
       videoLevel = None, containerFormat = ''unknown'', isHlsCompatible = False,
       recommendedStrategy = Reencode \<rparr>"

definition probeOrFallback :: "probe_data option \<Rightarrow> VideoCodecInfo" where
  "probeOrFallback out =
     (case probeVideoCodecs out of Inl err \<Rightarrow> unknownCodecInfo | Inr info \<Rightarrow> info)"

definition strategy_name :: "strategy \<Rightarrow> string" where
  "strategy_name s = (case s of Copy \<Rightarrow> ''copy'' | Selective \<Rightarrow> ''selective''
                      | Reencode \<Rightarrow> ''reencode'')"

definition dq :: string where
  "dq = [CHR 0x22]"

definition buildOptimizedFFmpegCommand :: "strategy \<Rightarrow> string \<Rightarrow> string \<Rightarrow> string" where
  "buildOptimizedFFmpegCommand strat inputPath outputPath =
     (let baseParams = ''-start_number 0 -hls_time 3 -hls_list_size 0 -f hls''
      in case strat of
           Copy \<Rightarrow> ''ffmpeg -i '' @ dq @ inputPath @ dq @ '' -c copy '' @ baseParams
                   @ '' '' @ dq @ outputPath @ dq
         | Selective \<Rightarrow> ''ffmpeg -i '' @ dq @ inputPath @ dq @ '' -c:v copy -c:a aac -b:a 128k ''
                        @ baseParams @ '' '' @ dq @ outputPath @ dq
         | Reencode \<Rightarrow> ''ffmpeg -i '' @ dq @ inputPath @ dq
                       @ '' -c:v libx264 -preset medium -crf 23 -c:a aac -b:a 128k ''
                       @ baseParams @ '' '' @ dq @ outputPath @ dq)"

definition thumbnailCommand :: "string \<Rightarrow> string \<Rightarrow> string" where
  "thumbnailCommand localPath thumbnailPath =
     ''ffmpeg -y -i '' @ dq @ localPath @ dq @ '' -ss 00:00:01.000 -vframes 1 -q:v 2 ''
     @ dq @ thumbnailPath @ dq"

definition mp4Command :: "string \<Rightarrow> string \<Rightarrow> string" where
  "mp4Command inputPath outputPath =
     ''ffmpeg -i '' @ dq @ inputPath @ dq
     @ '' -c:v libx264 -preset medium -crf 23 -c:a aac -b:a 128k -movflags +faststart -y ''
     @ dq @ outputPath @ dq"

section \<open>The world of a job: store, trace, environment\<close>

text \<open>
  What a job does is recorded in a trace: the operations on the queue channel, the value
  of the progress column in each row written (with the id of the row), the commands passed
  to \<open>execSync\<close>, the objects put to the object store (key and content type), the
  webhook requests sent and the cleanup.
\<close>

datatype chan_op = Ack | Nack bool | Reject bool

datatype webhook_payload =
    CompletedPayload string string string string "string option"
  | FailedPayload string string string

datatype event =
    Chan chan_op
  | Write string int
  | Exec string
  | Put string string
  | Post string webhook_payload
  | Cleanup string string

record world =
  store :: video_store
  trace :: "event list"

definition emit :: "event \<Rightarrow> world \<Rightarrow> world" where
  "emit ev w = w\<lparr> trace := trace w @ [ev] \<rparr>"

text \<open>
  What the outside answers during one job: the clock, the working directory, the output
  of the probe for a path, whether a command run by \<open>execSync\<close> succeeds, whether a file
  exists when it is looked for, the content of a directory (\<open>None\<close>: reading it throws),
  whether an object is read and put, whether the metadata file is written, the outcome of
  a webhook request, and the message of an exception raised by a library.
\<close>

datatype dir_entry = RegFile string | SubDir string "dir_entry list"

datatype http_outcome = Responded nat | TransportError

record env =
  clock :: nat
  cwd :: string
  ffprobe :: "string \<Rightarrow> probe_data option"
  exec_ok :: "string \<Rightarrow> bool"
  file_exists :: "string \<Rightarrow> bool"
  mkdir_ok :: bool
  readdir :: "string \<Rightarrow> dir_entry list option"
  put_ok :: "string \<Rightarrow> bool"
  write_ok :: bool
  http_post :: "string \<Rightarrow> webhook_payload \<Rightarrow> http_outcome"
  ext_message :: string

text \<open>\<open>updateVideoRecord\<close> in a world: the write of the row is recorded.\<close>

definition w_update :: "env \<Rightarrow> string \<Rightarrow> VideoPatch \<Rightarrow> world \<Rightarrow> VideoRecord option \<times> world" where
  "w_update e i p w =
     (case updateVideoRecord (clock e) i p (store w) of
        (None, st') \<Rightarrow> (None, w)
      | (Some r, st') \<Rightarrow> (Some r, emit (Write i (progress r)) (w\<lparr> store := st' \<rparr>)))"

text \<open>\<open>if (uploadId) { updateVideoRecord(uploadId, patch) }\<close>.\<close>

definition update_if :: "env \<Rightarrow> string option \<Rightarrow> VideoPatch \<Rightarrow> world \<Rightarrow> world" where
  "update_if e uploadId p w =
     (case orNull uploadId of None \<Rightarrow> w | Some i \<Rightarrow> snd (w_update e i p w))"

section \<open>Object-store publisher (uploadFile)\<close>

definition endsWith :: "string \<Rightarrow> string \<Rightarrow> bool" where
  "endsWith s suffix \<longleftrightarrow> length suffix \<le> length s \<and> drop (length s - length suffix) s = suffix"

definition contentTypeOf :: "string \<Rightarrow> string" where
  "contentTypeOf file =
     (if endsWith file ''.m3u8'' then ''application/vnd.apple.mpegurl''
      else if endsWith file ''.ts'' then ''video/MP2T''
      else if endsWith file ''.mp4'' then ''video/mp4''
      else if endsWith file ''.m4s'' then ''video/iso.segment''
      else if endsWith file ''.mpd'' then ''application/dash+xml''
      else if endsWith file ''.vtt'' then ''text/vtt''
      else if endsWith file ''.jpg'' \<or> endsWith file ''.jpeg'' then ''image/jpeg''
      else if endsWith file ''.png'' then ''image/png''
      else ''application/octet-stream'')"

definition is_regular :: "dir_entry \<Rightarrow> bool" where
  "is_regular x = (case x of RegFile f \<Rightarrow> True | SubDir d sub \<Rightarrow> False)"

text \<open>
  The progress written after the \<open>uploadedCount\<close>-th file of \<open>totalFiles\<close>:
  \<open>Math.min(Math.floor((uploadedCount / totalFiles) * 15) + 80, 95)\<close>, in integers.
\<close>

definition uploadProgress :: "nat \<Rightarrow> nat \<Rightarrow> int" where
  "uploadProgress uploadedCount totalFiles =
     min (int ((uploadedCount * 15) div totalFiles) + 80) 95"

text \<open>
  The entries of one directory, taken in the order of the listing (the source starts the
  five uploads of a batch together and waits for all of them). A subdirectory is uploaded
  by a recursive call with its own counters. The first failure ends the upload with the
  library's exception.
\<close>

fun upload_entries ::
  "env \<Rightarrow> string option \<Rightarrow> nat \<Rightarrow> string \<Rightarrow> dir_entry list \<Rightarrow> nat \<Rightarrow> world
   \<Rightarrow> (string + unit) \<times> world" where
  "upload_entries e uploadId totalFiles prefix [] uploadedCount w = (Inr (), w)"
| "upload_entries e uploadId totalFiles prefix (RegFile file # rest) uploadedCount w =
     (let key = prefix @ ''/'' @ file
      in if \<not> put_ok e key then (Inl (ext_message e), w)
         else
           let w1 = emit (Put key (contentTypeOf file)) w;
               n = uploadedCount + 1;
               w2 = (if orNull uploadId \<noteq> None \<and> totalFiles > 10 \<and> n mod 5 = 0
                     then update_if e uploadId
                            (no_patch\<lparr> p_progress := Some (uploadProgress n totalFiles) \<rparr>) w1
                     else w1)
           in upload_entries e uploadId totalFiles prefix rest n w2)"
| "upload_entries e uploadId totalFiles prefix (SubDir file sub # rest) uploadedCount w =
     (case upload_entries e uploadId (length (filter is_regular sub)) (prefix @ ''/'' @ file)
             sub 0 w of
        (Inl err, w1) \<Rightarrow> (Inl err, w1)
      | (Inr u, w1) \<Rightarrow> upload_entries e uploadId totalFiles prefix rest uploadedCount w1)"

definition uploadFile ::
  "env \<Rightarrow> string \<Rightarrow> string \<Rightarrow> string option \<Rightarrow> world \<Rightarrow> (string + unit) \<times> world" where
  "uploadFile e dirPath prefix uploadId w =
     (case readdir e dirPath of
        None \<Rightarrow> (Inl (ext_message e), w)
      | Some files \<Rightarrow>
          upload_entries e uploadId (length (filter is_regular files)) prefix files 0 w)"

section \<open>Transcoder (transcodeAndUpload)\<close>

text \<open>
  A function that can throw returns the message of the exception (\<open>Inl\<close>) or its value
  (\<open>Inr\<close>), always with the world as it is at that point: what was written before an
  exception stays written.
\<close>

text \<open>\<open>path.parse(filename).name\<close>: the base name without its last extension.\<close>

definition path_parse_name :: "string \<Rightarrow> string" where
  "path_parse_name p =
     (let base = rev (takeWhile (\<lambda>c. c \<noteq> CHR ''/'') (rev p))
      in if CHR ''.'' \<notin> set (tl base) then base
         else rev (tl (dropWhile (\<lambda>c. c \<noteq> CHR ''.'') (rev base))))"

definition progress_patch :: "int \<Rightarrow> VideoPatch" where
  "progress_patch n = no_patch\<lparr> p_progress := Some n \<rparr>"

text \<open>
  The first check of the record: a completed video returns its stream URL at once
  (\<open>Some\<close>), a failed one is reset to \<open>processing\<close> at progress 25 with its error cleared.
\<close>

definition tu_precheck :: "env \<Rightarrow> string option \<Rightarrow> world \<Rightarrow> string option \<times> world" where
  "tu_precheck e uploadId w =
     (case orNull uploadId of
        None \<Rightarrow> (None, w)
      | Some i \<Rightarrow>
          (case getVideoRecord i (store w) of
             None \<Rightarrow> (None, w)
           | Some currentRecord \<Rightarrow>
               if status currentRecord = Completed
               then (Some (strOrEmpty (orNull (streamUrl currentRecord))), w)
               else if status currentRecord = Failed
               then (None, snd (w_update e i
                                  (no_patch\<lparr> p_status := Some Processing, p_progress := Some 25,
                                             p_error := Some None \<rparr>) w))
               else (None, w)))"

text \<open>
  The body of the \<open>try\<close> block around the HLS step: the HLS command, progress 60, the
  thumbnail command, progress 75, the check that the playlist exists. The result is
  whether the block ran to its end; \<open>listFiles\<close> only logs.
\<close>

definition tu_try :: "env \<Rightarrow> string \<Rightarrow> string \<Rightarrow> string \<Rightarrow> string option \<Rightarrow> world \<Rightarrow> bool \<times> world" where
  "tu_try e cmd localPath outputDir uploadId w =
     (let w1 = emit (Exec cmd) w
      in if \<not> exec_ok e cmd then (False, w1)
         else
           let w2 = update_if e uploadId (progress_patch 60) w1;
               thumbnailPath = outputDir @ ''/thumbnail.jpg'';
               thumbnailCmd = thumbnailCommand localPath thumbnailPath;
               w3 = emit (Exec thumbnailCmd) w2
           in if \<not> exec_ok e thumbnailCmd then (False, w3)
              else
                let w4 = update_if e uploadId (progress_patch 75) w3;
                    masterPlaylist = outputDir @ ''/index.m3u8''
                in if \<not> file_exists e masterPlaylist then (False, w4) else (True, w4))"

text \<open>The \<open>try\<close> block with its \<open>catch\<close>: the fallback to a full re-encode.\<close>

definition tu_hls ::
  "env \<Rightarrow> strategy \<Rightarrow> string \<Rightarrow> string \<Rightarrow> string option \<Rightarrow> world \<Rightarrow> (string + unit) \<times> world" where
  "tu_hls e strat localPath outputDir uploadId w =
     (let outputPath = outputDir @ ''/index.m3u8'';
          cmd = buildOptimizedFFmpegCommand strat localPath outputPath
      in case tu_try e cmd localPath outputDir uploadId w of
           (True, w1) \<Rightarrow> (Inr (), w1)
         | (False, w1) \<Rightarrow>
             if strat = Copy \<or> strat = Selective
             then
               let fallbackCmd = buildOptimizedFFmpegCommand Reencode localPath outputPath;
                   w2 = emit (Exec fallbackCmd) w1
               in if exec_ok e fallbackCmd then (Inr (), w2)
                  else (Inl ''Failed to transcode video with both stream copy and re-encoding'',
                        w2)
             else (Inl (''Failed to transcode video with '' @ strategy_name strat), w1))"

text \<open>
  The MP4 branch (\<open>uploadToS3\<close>): \<open>convertToMp4\<close> unless the container is MP4 already,
  then \<open>uploadMp4ToS3\<close>, then the record's \<open>mp4Url\<close>. Every exception in it is caught and
  logged, so the branch returns a world only.
\<close>

definition tu_mp4 ::
  "config \<Rightarrow> env \<Rightarrow> VideoCodecInfo \<Rightarrow> string \<Rightarrow> string \<Rightarrow> string \<Rightarrow> string option \<Rightarrow> world
   \<Rightarrow> world" where
  "tu_mp4 cfg e codecInfo localPath outputDir s3Prefix uploadId w =
     (let converted =
            (if includes_str (containerFormat codecInfo) ''mp4'' then (True, w)
             else
               let mp4FilePath = outputDir @ ''/video.mp4'';
                   cmd = mp4Command localPath mp4FilePath;
                   w1 = emit (Exec cmd) w
               in if exec_ok e cmd then (True, update_if e uploadId (progress_patch 70) w1)
                  else (False, w1))
      in case converted of
           (False, w2) \<Rightarrow> w2
         | (True, w2) \<Rightarrow>
             let mp4S3Key = s3Prefix @ ''/video.mp4''
             in if \<not> put_ok e mp4S3Key then w2
                else
                  let w3 = emit (Put mp4S3Key ''video/mp4'') w2;
                      w4 = update_if e uploadId (progress_patch 85) w3;
                      url = S3_BUCKET cfg @ ''.'' @ S3_ENDPOINT cfg @ ''/'' @ mp4S3Key
                  in update_if e uploadId (no_patch\<lparr> p_mp4Url := Some url \<rparr>) w4)"

text \<open>
  The upload: progress 85 after a stream copy and 80 otherwise, the files of the output
  directory, progress 95, the metadata file and its object, and the stream URL.
\<close>

definition tu_upload ::
  "config \<Rightarrow> env \<Rightarrow> VideoCodecInfo \<Rightarrow> string \<Rightarrow> string \<Rightarrow> string option \<Rightarrow> world
   \<Rightarrow> (string + string) \<times> world" where
  "tu_upload cfg e codecInfo outputDir s3Prefix uploadId w =
     (let progressAfterTranscoding = (if recommendedStrategy codecInfo = Copy then 85 else 80);
          w1 = update_if e uploadId (progress_patch progressAfterTranscoding) w
      in case uploadFile e outputDir s3Prefix uploadId w1 of
           (Inl err, w2) \<Rightarrow> (Inl err, w2)
         | (Inr u, w2) \<Rightarrow>
             let w3 = update_if e uploadId (progress_patch 95) w2;
                 metadataKey = s3Prefix @ ''/metadata.json''
             in if \<not> write_ok e then (Inl (ext_message e), w3)
                else if \<not> put_ok e metadataKey then (Inl (ext_message e), w3)
                else (Inr (S3_BUCKET cfg @ ''.'' @ S3_ENDPOINT cfg @ ''/'' @ s3Prefix
                           @ ''/index.m3u8''),
                      emit (Put metadataKey ''application/json'') w3))"

text \<open>The second check of the record, before the upload.\<close>

definition tu_publish ::
  "config \<Rightarrow> env \<Rightarrow> VideoCodecInfo \<Rightarrow> string \<Rightarrow> string \<Rightarrow> string option \<Rightarrow> world
   \<Rightarrow> (string + string) \<times> world" where
  "tu_publish cfg e codecInfo outputDir s3Prefix uploadId w =
     (case (case orNull uploadId of None \<Rightarrow> None | Some i \<Rightarrow> getVideoRecord i (store w)) of
        None \<Rightarrow> tu_upload cfg e codecInfo outputDir s3Prefix uploadId w
      | Some currentRecord \<Rightarrow>
          if status currentRecord = Completed
          then (Inr (strOrEmpty (orNull (streamUrl currentRecord))), w)
          else tu_upload cfg e codecInfo outputDir s3Prefix uploadId w)"

definition transcodeAndUpload ::
  "config \<Rightarrow> env \<Rightarrow> string \<Rightarrow> string \<Rightarrow> string option \<Rightarrow> string option \<Rightarrow> bool \<Rightarrow> world
   \<Rightarrow> (string + string) \<times> world" where
  "transcodeAndUpload cfg e localPath fname uploadId path toS3 w =
     (let name = (case orNull uploadId of None \<Rightarrow> path_parse_name fname | Some i \<Rightarrow> i)
      in case tu_precheck e uploadId w of
           (Some url, w1) \<Rightarrow> (Inr url, w1)
         | (None, w1) \<Rightarrow>
             let s3Prefix = s3PrefixOf path name;
                 outputDir = cwd e @ ''/controllers/videos/'' @ name
             in if \<not> mkdir_ok e then (Inl (ext_message e), w1)
                else
                  let w2 = update_if e uploadId (progress_patch 25) w1;
                      codecInfo = probeOrFallback (ffprobe e localPath)
                  in (case tu_hls e (recommendedStrategy codecInfo) localPath outputDir
                             uploadId w2 of
                        (Inl err, w3) \<Rightarrow> (Inl err, w3)
                      | (Inr u, w3) \<Rightarrow>
                          (let w4 = (if toS3
                                     then tu_mp4 cfg e codecInfo localPath outputDir s3Prefix
                                            uploadId w3
                                     else w3)
                           in tu_publish cfg e codecInfo outputDir s3Prefix uploadId w4)))"

section \<open>Worker (the consumer of the queue video_processing)\<close>

text \<open>
  The content of a delivered message, as \<open>JSON.parse\<close> sees it: text that does not
  parse, a falsy value (\<open>null\<close>), or a job object.
\<close>

datatype message = Unparseable | Falsy | Job VideoProcessingMessage

definition cleanupVideoFiles :: "string \<Rightarrow> string \<Rightarrow> world \<Rightarrow> world" where
  "cleanupVideoFiles uploadId originalFilePath w = emit (Cleanup uploadId originalFilePath) w"

text \<open>
  The inline webhook attempt, which the source writes out twice (after success and after
  failure) with the same updates: the request is sent; status 200 marks the callback
  completed; any other status, and an exception of the request, set the retry count
  to 1. Both set the time of the last attempt.
\<close>

definition send_webhook :: "env \<Rightarrow> string \<Rightarrow> string \<Rightarrow> webhook_payload \<Rightarrow> world \<Rightarrow> world" where
  "send_webhook e uploadId url payload w =
     (let w1 = emit (Post url payload) w;
          retry = no_patch\<lparr> p_callbackRetryCount := Some 1,
                            p_callbackLastAttempt := Some (clock e) \<rparr>
      in case http_post e url payload of
           Responded code \<Rightarrow>
             if code = 200
             then snd (w_update e uploadId
                         (no_patch\<lparr> p_callbackStatus := Some CbCompleted,
                                    p_callbackLastAttempt := Some (clock e) \<rparr>) w1)
             else snd (w_update e uploadId retry w1)
         | TransportError \<Rightarrow> snd (w_update e uploadId retry w1))"

definition on_success ::
  "config \<Rightarrow> env \<Rightarrow> VideoProcessingMessage \<Rightarrow> string \<Rightarrow> string \<Rightarrow> world \<Rightarrow> world" where
  "on_success cfg e job uploadId url w =
     (let s3Prefix = s3PrefixOf (job_s3Path job) uploadId;
          thumbUrl = S3_BUCKET cfg @ ''.'' @ S3_ENDPOINT cfg @ ''/'' @ s3Prefix
                     @ ''/thumbnail.jpg''
      in case w_update e uploadId
                (no_patch\<lparr> p_status := Some Completed, p_progress := Some 100,
                           p_streamUrl := Some url, p_thumbnailUrl := Some thumbUrl \<rparr>) w of
           (updatedRecord, w1) \<Rightarrow>
             let w2 = cleanupVideoFiles uploadId (job_filePath job) w1
             in (case (orNull (job_callbackUrl job), updatedRecord) of
                   (Some cb, Some r) \<Rightarrow>
                     send_webhook e uploadId cb
                       (CompletedPayload uploadId (job_filename job) url thumbUrl
                          (orNull (mp4Url r))) w2
                 | _ \<Rightarrow> w2))"

definition on_failure ::
  "env \<Rightarrow> VideoProcessingMessage \<Rightarrow> string \<Rightarrow> string \<Rightarrow> world \<Rightarrow> world" where
  "on_failure e job uploadId err w =
     (case w_update e uploadId
             (no_patch\<lparr> p_status := Some Failed, p_error := Some (Some err) \<rparr>) w of
        (updatedRecord, w1) \<Rightarrow>
          let w2 = cleanupVideoFiles uploadId (job_filePath job) w1
          in (case (orNull (job_callbackUrl job), updatedRecord) of
                (Some cb, Some r) \<Rightarrow>
                  send_webhook e uploadId cb (FailedPayload uploadId (job_filename job) err) w2
              | _ \<Rightarrow> w2))"

text \<open>
  The handler of one delivered message. All acknowledgements are made in the part of the
  handler that runs before its first \<open>await\<close>, on the channel that has just delivered the
  message. Text that does not parse throws in \<open>JSON.parse\<close>: the \<open>catch\<close> block
  acknowledges and its second \<open>JSON.parse\<close> throws again. A job without \<open>uploadId\<close> is
  bound as \<open>undefined\<close> in the lookup: whether the driver throws or finds no row, the
  message is acknowledged once and nothing else happens.
\<close>

definition handler :: "config \<Rightarrow> env \<Rightarrow> message \<Rightarrow> world \<Rightarrow> world" where
  "handler cfg e msg w =
     (case msg of
        Unparseable \<Rightarrow> emit (Chan Ack) w
      | Falsy \<Rightarrow> emit (Chan Ack) w
      | Job job \<Rightarrow>
          (case job_uploadId job of
             None \<Rightarrow> emit (Chan Ack) w
           | Some uploadId \<Rightarrow>
               (case safelyTransitionToProcessing uploadId (store w) of
                  ((success, record), st1) \<Rightarrow>
                    if \<not> success then emit (Chan Ack) (w\<lparr> store := st1 \<rparr>)
                    else
                      let w0 = (case record of
                                  None \<Rightarrow> w\<lparr> store := st1 \<rparr>
                                | Some r \<Rightarrow> emit (Write uploadId (progress r))
                                             (w\<lparr> store := st1 \<rparr>));
                          w1 = emit (Chan Ack) w0
                      in (case transcodeAndUpload cfg e (job_filePath job) (job_filename job)
                                 (Some uploadId) (job_s3Path job) (job_uploadToS3 job) w1 of
                            (Inr url, w2) \<Rightarrow> on_success cfg e job uploadId url w2
                          | (Inl err, w2) \<Rightarrow> on_failure e job uploadId err w2))))"

text \<open>What a trace says: the progress values written to a record, the webhook requests, the commands.\<close>

definition progress_writes :: "string \<Rightarrow> event list \<Rightarrow> int list" where
  "progress_writes i evs =
     concat (map (\<lambda>ev. case ev of Write j n \<Rightarrow> (if j = i then [n] else []) | _ \<Rightarrow> []) evs)"

definition posts :: "event list \<Rightarrow> (string \<times> webhook_payload) list" where
  "posts evs = concat (map (\<lambda>ev. case ev of Post u p \<Rightarrow> [(u, p)] | _ \<Rightarrow> []) evs)"

definition chan_ops :: "event list \<Rightarrow> chan_op list" where
  "chan_ops evs = concat (map (\<lambda>ev. case ev of Chan c \<Rightarrow> [c] | _ \<Rightarrow> []) evs)"

definition execs :: "event list \<Rightarrow> string list" where
  "execs evs = concat (map (\<lambda>ev. case ev of Exec c \<Rightarrow> [c] | _ \<Rightarrow> []) evs)"

section \<open>Devices of the proofs\<close>

text \<open>
  What the webhook dispatcher and the queue see of a world: the channel operations and
  the webhook requests of the trace, and for each record its callback fields and whether
  it is completed. The steps of the transcoder leave all of it as it is.
\<close>

definition cb_view :: "VideoRecord \<Rightarrow> callback_status \<times> int \<times> nat option \<times> bool" where
  "cb_view r = (callbackStatus r, callbackRetryCount r, callbackLastAttempt r, status r = Completed)"

definition obs ::
  "world \<Rightarrow> chan_op list \<times> (string \<times> webhook_payload) list
            \<times> (string \<Rightarrow> (callback_status \<times> int \<times> nat option \<times> bool) option)" where
  "obs w = (chan_ops (trace w), posts (trace w), (\<lambda>i. map_option cb_view (store w i)))"

text \<open>A patch that sets neither the status nor a callback field.\<close>

definition quiet_patch :: "VideoPatch \<Rightarrow> bool" where
  "quiet_patch p \<longleftrightarrow> p_callbackStatus p = None \<and> p_callbackRetryCount p = None
     \<and> p_callbackLastAttempt p = None \<and> p_status p = None"

section \<open>A sample deployment\<close>

text \<open>
  The configuration of the README (100 MiB for resumable uploads, four allowed video
  types) with a type lookup that knows the suffix \<open>.mp4\<close>, a session, its record and
  its job, used to run the definitions on concrete inputs.
\<close>

definition demo_cfg :: config where
  "demo_cfg = \<lparr> S3_BUCKET = ''videos'', S3_ENDPOINT = ''s3.example.com'',
                 VELLUM_HOST = ''http://localhost:8001'',
                 ALLOWED_FILE_TYPES = [''video/mp4'', ''video/avi'', ''video/mov'', ''video/mkv''],
                 maxSize = 104857600,
                 mime_lookup = (\<lambda>f. if endsWith f ''.mp4'' then Some ''video/mp4'' else None) \<rparr>"

definition demo_request :: create_request where
  "demo_request = \<lparr> req_filename = ''a.mp4'', req_filesize = 157286400, req_packager = None,
                     req_callbackUrl = Some ''https://hook.example.com/cb'',
                     req_s3Path = Some ''/v2/media'', req_uploadToS3 = Some True,
                     req_type = Some ''direct'' \<rparr>"

definition demo_record :: VideoRecord where
  "demo_record = \<lparr> id_rec = ''v1'', filename = ''a.mp4'', status = Uploading, progress = 0,
     streamUrl = None, thumbnailUrl = None, createdAt = 0,
     completedAt = None, error = None, packager = Some ''ffmpeg'',
     callbackUrl = Some ''https://hook.example.com/cb'',
     callbackStatus = CbPending, callbackRetryCount = 0,
     callbackLastAttempt = None, s3Path = Some ''/v2/media'',
     uploadToS3 = True, mp4Url = None, uploadType = Direct \<rparr>"

definition demo_store :: video_store where
  "demo_store = Map.empty(''v1'' \<mapsto> demo_record)"

definition demo_world :: world where
  "demo_world = \<lparr> store = demo_store, trace = [] \<rparr>"

definition demo_job :: VideoProcessingMessage where
  "demo_job = \<lparr> job_uploadId = Some ''v1'', job_filePath = ''/app/uploads/v1'',
                 job_filename = ''a.mp4'', job_packager = ''ffmpeg'',
                 job_callbackUrl = Some ''https://hook.example.com/cb'',
                 job_s3Path = Some ''/v2/media'', job_uploadToS3 = True \<rparr>"

text \<open>A source in a Matroska container with VP9 video and Opus audio.\<close>

definition webm_probe :: probe_data where
  "webm_probe = \<lparr> streams = Some [\<lparr> codec_type = ''video'', codec_name = Some ''vp9'',
                                     st_profile = Some ''Profile 0'', st_level = None \<rparr>,
                                   \<lparr> codec_type = ''audio'', codec_name = Some ''opus'',
                                     st_profile = None, st_level = None \<rparr>],
                   format_name = Some ''matroska,webm'' \<rparr>"

text \<open>An environment in which every step succeeds and the webhook answers 200.\<close>

definition demo_env :: env where
  "demo_env = \<lparr> clock = 1000, cwd = ''/app'', ffprobe = (\<lambda>p. Some webm_probe),
                 exec_ok = (\<lambda>c. True), file_exists = (\<lambda>p. True), mkdir_ok = True,
                 readdir = (\<lambda>d. Some [RegFile ''index.m3u8'', RegFile ''index0.ts'',
                                        RegFile ''thumbnail.jpg'', RegFile ''video.mp4'']),
                 put_ok = (\<lambda>k. True), write_ok = True,
                 http_post = (\<lambda>u p. Responded 200), ext_message = ''library error'' \<rparr>"

text \<open>
  Whether the video stream can be copied, as \<open>isCompatibleWithHls\<close> and
  \<open>determineTranscodingStrategy\<close> both decide it: H.264, and a profile that is missing
  or is, in lower case, one of the four HLS profiles.
\<close>

definition video_ok :: "string \<Rightarrow> string \<Rightarrow> bool" where
  "video_ok vCodec vProfile \<longleftrightarrow>
     vCodec = ''h264'' \<and> (vProfile = [] \<or> toLowerCase vProfile \<in> set hls_profiles)"

text \<open>An MP4 source with H.264 video and AAC audio whose video stream reports no profile.\<close>

definition bare_h264_probe :: probe_data where
  "bare_h264_probe = \<lparr> streams = Some [\<lparr> codec_type = ''video'', codec_name = Some ''h264'',
                                     st_profile = None, st_level = None \<rparr>,
                                   \<lparr> codec_type = ''audio'', codec_name = Some ''aac'',
                                     st_profile = None, st_level = None \<rparr>],
                   format_name = Some ''mov,mp4,m4a,3gp,3g2,mj2'' \<rparr>"

text \<open>
  An environment in which every command, file check, directory creation, object
  upload and file write succeeds.
\<close>

definition all_ok :: "env \<Rightarrow> bool" where
  "all_ok e \<longleftrightarrow> (\<forall>c. exec_ok e c) \<and> (\<forall>p. file_exists e p) \<and> mkdir_ok e
                \<and> (\<forall>k. put_ok e k) \<and> write_ok e"

text \<open>The record \<open>i\<close> is being processed and its progress is \<open>n\<close>.\<close>

definition running :: "world \<Rightarrow> string \<Rightarrow> int \<Rightarrow> bool" where
  "running w i n \<longleftrightarrow> (\<exists>r. store w i = Some r \<and> status r = Processing \<and> progress r = n)"

text \<open>
  The progress values that \<open>transcodeAndUpload\<close> writes when every step succeeds and the
  output directory holds at most ten files.
\<close>

definition run_progress :: "bool \<Rightarrow> VideoCodecInfo \<Rightarrow> int list" where
  "run_progress toS3 info =
     [25, 60, 75]
     @ (if toS3 then (if includes_str (containerFormat info) ''mp4'' then [] else [70]) @ [85, 85]
        else [])
     @ [if recommendedStrategy info = Copy then 85 else 80, 95]"

text \<open>The callback fields of a record.\<close>

definition cb3 :: "VideoRecord \<Rightarrow> callback_status \<times> int \<times> nat option" where
  "cb3 r = (callbackStatus r, callbackRetryCount r, callbackLastAttempt r)"

text \<open>
  What the inline webhook attempt of a job with callback URL \<open>cbo\<close> leaves behind, from a
  record \<open>r\<close> in a world \<open>w\<close> to a record \<open>r'\<close> in a world \<open>w'\<close>: without a URL no request
  and the callback fields as they were; with a URL one request, and the callback fields
  that its outcome sets.
\<close>

definition webhook_outcome ::
  "env \<Rightarrow> string option \<Rightarrow> VideoRecord \<Rightarrow> world \<Rightarrow> VideoRecord \<Rightarrow> world \<Rightarrow> bool" where
  "webhook_outcome e cbo r w r' w' \<longleftrightarrow>
     (case orNull cbo of
        None \<Rightarrow> posts (trace w') = posts (trace w) \<and> cb3 r' = cb3 r
      | Some cb \<Rightarrow>
          (\<exists>pl. posts (trace w') = posts (trace w) @ [(cb, pl)]
                \<and> cb3 r' = (if http_post e cb pl = Responded 200
                             then (CbCompleted, callbackRetryCount r, Some (clock e))
                             else (callbackStatus r, 1, Some (clock e)))))"

text \<open>The world in which the transcoder starts after a successful acquisition.\<close>

definition acquired :: "string \<Rightarrow> VideoRecord \<Rightarrow> world \<Rightarrow> world" where
  "acquired i r w =
     emit (Chan Ack) (emit (Write i 10)
       (w\<lparr> store := (store w)(i \<mapsto> r\<lparr> status := Processing, progress := 10 \<rparr>) \<rparr>))"

text \<open>
  Two environments in which the job fails at once (the work directory cannot be
  created): in the first the webhook answers 200, in the second 500.
\<close>

definition down_env :: env where
  "down_env = demo_env\<lparr> mkdir_ok := False \<rparr>"

definition down_env_500 :: env where
  "down_env_500 = demo_env\<lparr> mkdir_ok := False, http_post := (\<lambda>u p. Responded 500) \<rparr>"

text \<open>A record of a completed video whose callback is still pending.\<close>

definition done_record :: VideoRecord where
  "done_record = demo_record\<lparr> status := Completed, progress := 100 \<rparr>"

section \<open>The transcoder leaves the callback fields, the webhooks and the channel alone\<close>

lemma orNull_Some: "i \<noteq> [] \<Longrightarrow> orNull (Some i) = Some i"
  by (simp add: orNull_def)

lemma cb_view_toRow: "cb_view (toRow r) = cb_view r"
  by (simp add: cb_view_def toRow_def)

lemma cb_view_applyUpdates: "quiet_patch p \<Longrightarrow> cb_view (applyUpdates now r p) = cb_view r"
  by (simp add: cb_view_def applyUpdates_def spread_def quiet_patch_def Let_def)

lemma w_update_None: "store w i = None \<Longrightarrow> w_update e i p w = (None, w)"
  by (simp add: w_update_def updateVideoRecord_def getVideoRecord_def)

lemma w_update_Some:
  "store w i = Some r \<Longrightarrow>
   w_update e i p w =
     (Some (applyUpdates (clock e) r p),
      emit (Write i (progress (applyUpdates (clock e) r p)))
        (w\<lparr> store := (store w)(i \<mapsto> toRow (applyUpdates (clock e) r p)) \<rparr>))"
  by (simp add: w_update_def updateVideoRecord_def getVideoRecord_def Let_def)

lemma obs_emit:
  "obs (emit (Write i n) w) = obs w"
  "obs (emit (Exec c) w) = obs w"
  "obs (emit (Put k t) w) = obs w"
  "obs (emit (Cleanup a b) w) = obs w"
  by (simp_all add: obs_def emit_def chan_ops_def posts_def)

lemma obs_store_upd:
  "store w i = Some r \<Longrightarrow> cb_view r' = cb_view r \<Longrightarrow> obs (w\<lparr> store := (store w)(i \<mapsto> r') \<rparr>) = obs w"
  by (auto simp: obs_def fun_eq_iff)

lemma obs_w_update_gen:
  assumes "store w i = Some r" and "cb_view (applyUpdates (clock e) r p) = cb_view r"
  shows "obs (snd (w_update e i p w)) = obs w"
proof -
  have "cb_view (toRow (applyUpdates (clock e) r p)) = cb_view r"
    using assms(2) by (simp add: cb_view_toRow)
  then show ?thesis
    using assms(1) by (simp add: w_update_Some obs_emit obs_store_upd)
qed

lemma obs_w_update: "quiet_patch p \<Longrightarrow> obs (snd (w_update e i p w)) = obs w"
proof (cases "store w i")
  case None
  then show ?thesis by (simp add: w_update_None)
next
  case (Some r)
  assume "quiet_patch p"
  then show ?thesis using Some
    by (simp add: obs_w_update_gen cb_view_applyUpdates)
qed

lemma obs_update_if: "quiet_patch p \<Longrightarrow> obs (update_if e u p w) = obs w"
  by (simp add: update_if_def obs_w_update split: option.splits)

lemma quiet_patches:
  "quiet_patch (progress_patch n)"
  "quiet_patch (no_patch\<lparr> p_mp4Url := Some u \<rparr>)"
  "quiet_patch (no_patch\<lparr> p_progress := Some n \<rparr>)"
  by (simp_all add: quiet_patch_def progress_patch_def no_patch_def)

lemma obs_upload_entries:
  "obs (snd (upload_entries e u tot prefix files n w)) = obs w"
proof (induction e u tot prefix files n w rule: upload_entries.induct)
  case (1 e uploadId totalFiles prefix uploadedCount w)
  then show ?case by simp
next
  case (2 e uploadId totalFiles prefix fl rest uploadedCount w)
  show ?case
  proof (cases "put_ok e (prefix @ ''/'' @ fl)")
    case False
    then show ?thesis by simp
  next
    case True
    then show ?thesis
      using 2 by (simp add: Let_def obs_emit obs_update_if quiet_patches)
  qed
next
  case (3 e uploadId totalFiles prefix fl sub rest uploadedCount w)
  then show ?case
    by (auto split: prod.splits sum.splits)
qed

lemma obs_uploadFile: "obs (snd (uploadFile e d prefix u w)) = obs w"
  by (simp add: uploadFile_def obs_upload_entries split: option.splits)

lemma obs_tu_precheck: "obs (snd (tu_precheck e u w)) = obs w"
proof -
  have "\<And>i r. store w i = Some r \<Longrightarrow> status r = Failed \<Longrightarrow>
     obs (snd (w_update e i (no_patch\<lparr> p_status := Some Processing, p_progress := Some 25,
                                             p_error := Some None \<rparr>) w)) = obs w"
    by (rule obs_w_update_gen, assumption)
       (simp add: cb_view_def applyUpdates_def spread_def no_patch_def Let_def)
  then show ?thesis
    by (simp add: tu_precheck_def getVideoRecord_def split: option.splits)
qed

lemma obs_tu_try: "obs (snd (tu_try e cmd lp od u w)) = obs w"
  by (simp add: tu_try_def Let_def obs_emit obs_update_if quiet_patches)

lemma obs_tu_hls: "obs (snd (tu_hls e strat lp od u w)) = obs w"
  using obs_tu_try [of e "buildOptimizedFFmpegCommand strat lp (od @ ''/index.m3u8'')" lp od u w]
  by (auto simp: tu_hls_def Let_def obs_emit split: prod.splits bool.splits)

lemma obs_tu_mp4: "obs (tu_mp4 cfg e info lp od pre u w) = obs w"
  by (simp add: tu_mp4_def Let_def obs_emit obs_update_if quiet_patches)

lemma obs_tu_upload: "obs (snd (tu_upload cfg e info od pre u w)) = obs w"
  using obs_uploadFile [of e od pre u "update_if e u (progress_patch (if recommendedStrategy info = Copy then 85 else 80)) w"]
  by (auto simp: tu_upload_def Let_def obs_emit obs_update_if quiet_patches split: prod.splits sum.splits)

lemma obs_tu_publish: "obs (snd (tu_publish cfg e info od pre u w)) = obs w"
  by (simp add: tu_publish_def obs_tu_upload split: option.splits)

lemma obs_transcodeAndUpload:
  "obs (snd (transcodeAndUpload cfg e lp fname u path toS3 w)) = obs w"
proof -
  obtain r1 w1 where pc: "tu_precheck e u w = (r1, w1)" by (cases "tu_precheck e u w")
  have o1: "obs w1 = obs w" using obs_tu_precheck [of e u w] pc by simp
  show ?thesis
  proof (cases r1)
    case (Some url)
    then show ?thesis using pc o1 by (simp add: transcodeAndUpload_def Let_def)
  next
    case None
    show ?thesis
    proof (cases "mkdir_ok e")
      case False
      then show ?thesis using pc o1 None by (simp add: transcodeAndUpload_def Let_def)
    next
      case True
      define name where "name = (case orNull u of None \<Rightarrow> path_parse_name fname | Some i \<Rightarrow> i)"
      define info where "info = probeOrFallback (ffprobe e lp)"
      define od where "od = cwd e @ ''/controllers/videos/'' @ name"
      define w2 where "w2 = update_if e u (progress_patch 25) w1"
      have o2: "obs w2 = obs w" by (simp add: w2_def obs_update_if quiet_patches o1)
      obtain r3 w3 where h: "tu_hls e (recommendedStrategy info) lp od u w2 = (r3, w3)"
        by (cases "tu_hls e (recommendedStrategy info) lp od u w2")
      have o3: "obs w3 = obs w" using obs_tu_hls [of e "recommendedStrategy info" lp od u w2] h o2 by simp
      show ?thesis
      proof (cases r3)
        case (Inl err)
        then show ?thesis using pc None True h o3
          by (simp add: transcodeAndUpload_def Let_def name_def info_def od_def w2_def)
      next
        case (Inr x)
        then show ?thesis using pc None True h o3
          by (simp add: transcodeAndUpload_def Let_def name_def info_def od_def w2_def
              obs_tu_publish obs_tu_mp4)
      qed
    qed
  qed
qed

lemma transition_update_cases:
  "transition_update i st =
     (case st i of None \<Rightarrow> (0, st)
      | Some r \<Rightarrow> if transition_where r
                  then (1, st(i \<mapsto> r\<lparr> status := Processing, progress := 10 \<rparr>)) else (0, st))"
  by (simp add: transition_update_def)

section \<open>The atomic guard\<close>

text \<open>
  Claim C1. \<open>safelyTransitionToProcessing\<close> succeeds exactly when the record exists and
  is \<open>uploading\<close>, \<open>failed\<close>, or \<open>processing\<close> with progress at most 10. On success the
  record gets status \<open>processing\<close> and progress 10, nothing else changes, and the updated
  record is returned. In every other case the store is unchanged and the record returned
  is the stored one.
\<close>

theorem C1_atomic_guard:
  assumes "safelyTransitionToProcessing i st = ((ok, rec), st')"
  shows "(ok \<longleftrightarrow> (\<exists>r. st i = Some r \<and>
                 (status r = Uploading \<or> status r = Failed
                  \<or> (status r = Processing \<and> progress r \<le> 10))))
       \<and> (ok \<longrightarrow> (\<exists>r. st i = Some r
                 \<and> rec = Some (r\<lparr> status := Processing, progress := 10 \<rparr>)
                 \<and> st' = st(i \<mapsto> r\<lparr> status := Processing, progress := 10 \<rparr>)))
       \<and> (\<not> ok \<longrightarrow> st' = st \<and> rec = st i)"
proof (cases "st i")
  case None
  with assms show ?thesis
    by (simp add: safelyTransitionToProcessing_def getVideoRecord_def)
next
  case (Some r)
  show ?thesis
  proof (cases "status r")
    case Uploading
    with Some assms show ?thesis
      by (auto simp: safelyTransitionToProcessing_def getVideoRecord_def
          transition_update_cases transition_where_def)
  next
    case Processing
    with Some assms show ?thesis
      by (auto simp: safelyTransitionToProcessing_def getVideoRecord_def
          transition_update_cases transition_where_def split: if_splits)
  next
    case Completed
    with Some assms show ?thesis
      by (auto simp: safelyTransitionToProcessing_def getVideoRecord_def)
  next
    case Failed
    with Some assms show ?thesis
      by (auto simp: safelyTransitionToProcessing_def getVideoRecord_def
          transition_update_cases transition_where_def)
  qed
qed

theorem C1_atomic_guard_witness:
  "safelyTransitionToProcessing ''v1'' demo_store =
     ((True, Some (demo_record\<lparr> status := Processing, progress := 10 \<rparr>)),
      demo_store(''v1'' \<mapsto> demo_record\<lparr> status := Processing, progress := 10 \<rparr>))
   \<and> (\<exists>r. demo_store ''v1'' = Some r \<and>
          (status r = Uploading \<or> status r = Failed
           \<or> (status r = Processing \<and> progress r \<le> 10)))"
proof -
  have h: "safelyTransitionToProcessing ''v1'' demo_store =
     ((True, Some (demo_record\<lparr> status := Processing, progress := 10 \<rparr>)),
      demo_store(''v1'' \<mapsto> demo_record\<lparr> status := Processing, progress := 10 \<rparr>))"
    by (simp add: safelyTransitionToProcessing_def getVideoRecord_def transition_update_cases
        transition_where_def demo_store_def demo_record_def)
  from C1_atomic_guard [OF h] show ?thesis using h by simp
qed

text \<open>
  Claim C9. On an id that is not in the store, \<open>updateVideoRecord\<close> returns \<open>undefined\<close>
  and \<open>safelyTransitionToProcessing\<close> returns \<open>{success: false, record: undefined}\<close>, and
  both leave the store as it is. Neither operation creates a record, on any id: the set of
  stored ids is the same afterwards.
\<close>

theorem C9_unknown_id:
  assumes "st i = None"
  shows "updateVideoRecord now i p st = (None, st)
       \<and> safelyTransitionToProcessing i st = ((False, None), st)
       \<and> dom (snd (updateVideoRecord now j p st)) = dom st
       \<and> dom (snd (safelyTransitionToProcessing j st)) = dom st"
proof -
  have a: "updateVideoRecord now i p st = (None, st)"
    using assms by (simp add: updateVideoRecord_def getVideoRecord_def)
  have b: "safelyTransitionToProcessing i st = ((False, None), st)"
    using assms by (simp add: safelyTransitionToProcessing_def getVideoRecord_def)
  have c: "dom (snd (updateVideoRecord now j p st)) = dom st"
    by (auto simp: updateVideoRecord_def getVideoRecord_def Let_def split: option.splits)
  have d: "dom (snd (safelyTransitionToProcessing j st)) = dom st"
    by (auto simp: safelyTransitionToProcessing_def getVideoRecord_def
        transition_update_cases split: option.splits if_splits)
  from a b c d show ?thesis by simp
qed

theorem C9_unknown_id_witness:
  "demo_store ''v2'' = None
   \<and> updateVideoRecord 5 ''v2'' (progress_patch 50) demo_store = (None, demo_store)
   \<and> safelyTransitionToProcessing ''v2'' demo_store = ((False, None), demo_store)"
proof -
  have h: "demo_store ''v2'' = None" by (simp add: demo_store_def)
  from C9_unknown_id [of demo_store "''v2''" 5 "progress_patch 50" "''v2''"]
  show ?thesis using h by simp
qed

section \<open>Acknowledgement of a delivered message\<close>

lemma chan_ops_emit:
  "chan_ops (trace (emit (Chan c) w)) = chan_ops (trace w) @ [c]"
  "chan_ops (trace (emit (Write i n) w)) = chan_ops (trace w)"
  "chan_ops (trace (emit (Exec x) w)) = chan_ops (trace w)"
  "chan_ops (trace (emit (Put k t) w)) = chan_ops (trace w)"
  "chan_ops (trace (emit (Post u p) w)) = chan_ops (trace w)"
  "chan_ops (trace (emit (Cleanup a b) w)) = chan_ops (trace w)"
  by (simp_all add: emit_def chan_ops_def)

lemma chan_ops_w_update: "chan_ops (trace (snd (w_update e i p w))) = chan_ops (trace w)"
proof (cases "store w i")
  case None
  then show ?thesis by (simp add: w_update_None)
next
  case (Some r)
  then show ?thesis by (simp add: w_update_Some chan_ops_emit)
qed

lemma chan_ops_send_webhook:
  "chan_ops (trace (send_webhook e i url pl w)) = chan_ops (trace w)"
  by (simp add: send_webhook_def Let_def chan_ops_w_update chan_ops_emit
      split: http_outcome.splits)

lemma chan_ops_on_success:
  "chan_ops (trace (on_success cfg e job i url w)) = chan_ops (trace w)"
proof -
  obtain u w1 where h: "w_update e i
                (no_patch\<lparr> p_status := Some Completed, p_progress := Some 100,
                           p_streamUrl := Some url, p_thumbnailUrl := Some (S3_BUCKET cfg @ ''.'' @ S3_ENDPOINT cfg @ ''/'' @ s3PrefixOf (job_s3Path job) i
                     @ ''/thumbnail.jpg'') \<rparr>) w = (u, w1)"
    by (cases "w_update e i
                (no_patch\<lparr> p_status := Some Completed, p_progress := Some 100,
                           p_streamUrl := Some url, p_thumbnailUrl := Some (S3_BUCKET cfg @ ''.'' @ S3_ENDPOINT cfg @ ''/'' @ s3PrefixOf (job_s3Path job) i
                     @ ''/thumbnail.jpg'') \<rparr>) w")
  have "chan_ops (trace w1) = chan_ops (trace w)"
    using chan_ops_w_update [of e i _ w] h by (metis snd_conv)
  then show ?thesis
    using h by (simp add: on_success_def Let_def cleanupVideoFiles_def chan_ops_emit
        chan_ops_send_webhook split: option.splits)
qed

lemma chan_ops_on_failure:
  "chan_ops (trace (on_failure e job i err w)) = chan_ops (trace w)"
proof -
  obtain u w1 where h: "w_update e i
             (no_patch\<lparr> p_status := Some Failed, p_error := Some (Some err) \<rparr>) w = (u, w1)"
    by (cases "w_update e i
             (no_patch\<lparr> p_status := Some Failed, p_error := Some (Some err) \<rparr>) w")
  have "chan_ops (trace w1) = chan_ops (trace w)"
    using chan_ops_w_update [of e i _ w] h by (metis snd_conv)
  then show ?thesis
    using h by (simp add: on_failure_def Let_def cleanupVideoFiles_def chan_ops_emit
        chan_ops_send_webhook split: option.splits)
qed

lemma chan_ops_transcodeAndUpload:
  "chan_ops (trace (snd (transcodeAndUpload cfg e lp fname u path toS3 w))) = chan_ops (trace w)"
  using obs_transcodeAndUpload [of cfg e lp fname u path toS3 w] by (simp add: obs_def)

text \<open>
  Claim C10. For every delivered message (text that does not parse, a falsy value, or a
  job, with or without an upload id), every store and every outcome of the processing,
  the handler performs exactly one channel operation, and it is an acknowledgement: the
  message is never rejected and never requeued.
\<close>

theorem C10_single_ack:
  "chan_ops (trace (handler cfg e msg w)) = chan_ops (trace w) @ [Ack]"
proof (cases msg)
  case Unparseable
  then show ?thesis by (simp add: handler_def chan_ops_emit)
next
  case Falsy
  then show ?thesis by (simp add: handler_def chan_ops_emit)
next
  case (Job job)
  show ?thesis
  proof (cases "job_uploadId job")
    case None
    then show ?thesis using Job by (simp add: handler_def chan_ops_emit)
  next
    case (Some i)
    obtain ok rec st1 where t: "safelyTransitionToProcessing i (store w) = ((ok, rec), st1)"
      by (metis prod.exhaust)
    show ?thesis
    proof (cases ok)
      case False
      then show ?thesis using Job Some t
        by (simp add: handler_def chan_ops_emit)
    next
      case True
      define w0 where "w0 = (case rec of None \<Rightarrow> w\<lparr> store := st1 \<rparr>
                             | Some r \<Rightarrow> emit (Write i (progress r)) (w\<lparr> store := st1 \<rparr>))"
      define w1 where "w1 = emit (Chan Ack) w0"
      have c1: "chan_ops (trace w1) = chan_ops (trace w) @ [Ack]"
        by (cases rec) (simp_all add: w1_def w0_def chan_ops_emit)
      obtain res w2 where tr: "transcodeAndUpload cfg e (job_filePath job) (job_filename job)
                                 (Some i) (job_s3Path job) (job_uploadToS3 job) w1 = (res, w2)"
        by (metis prod.exhaust)
      have c2: "chan_ops (trace w2) = chan_ops (trace w) @ [Ack]"
        using chan_ops_transcodeAndUpload [of cfg e "job_filePath job" "job_filename job"
            "Some i" "job_s3Path job" "job_uploadToS3 job" w1] tr c1 by simp
      have "handler cfg e msg w =
              (case res of Inr url \<Rightarrow> on_success cfg e job i url w2
               | Inl err \<Rightarrow> on_failure e job i err w2)"
        using Job Some t True tr
        by (simp add: handler_def Let_def w1_def w0_def split: sum.splits)
      then show ?thesis
        using c2 by (simp add: chan_ops_on_success chan_ops_on_failure split: sum.splits)
    qed
  qed
qed

theorem C10_single_ack_witness:
  "chan_ops (trace (handler demo_cfg demo_env (Job demo_job) demo_world)) = [Ack]
   \<and> chan_ops (trace (handler demo_cfg demo_env Unparseable demo_world)) = [Ack]"
  using C10_single_ack [of demo_cfg demo_env "Job demo_job" demo_world]
        C10_single_ack [of demo_cfg demo_env Unparseable demo_world]
  by (simp add: demo_world_def chan_ops_def)

section \<open>The codec prober\<close>

lemma lower_samples:
  "toLowerCase ''High'' = ''high''" "toLowerCase ''Main'' = ''main''"
  by code_simp+

lemma compat_eq:
  "isCompatibleWithHls v a p = (video_ok v (strOrEmpty p) \<and> a = ''aac'')"
  by (auto simp: isCompatibleWithHls_def video_ok_def strOrEmpty_def orNull_def Let_def
      split: option.splits)

lemma strategy_eq:
  "determineTranscodingStrategy v a p =
     (if video_ok v (strOrEmpty p) \<and> a = ''aac'' then Copy
      else if video_ok v (strOrEmpty p) then Selective else Reencode)"
  by (auto simp: determineTranscodingStrategy_def video_ok_def strOrEmpty_def orNull_def Let_def
      split: option.splits)

text \<open>
  Claim C6, as the code has it. The prober reports a source as HLS-compatible when the
  video codec is H.264, the video profile is missing or is, compared without regard to
  case, one of baseline, main, high and constrained baseline, and the audio codec is AAC.
  The strategy is \<open>copy\<close> when both streams are compatible, \<open>selective\<close> when the video
  is and the audio is not, \<open>reencode\<close> otherwise. When the probe fails the strategy is
  \<open>reencode\<close>, both codecs are reported as \<open>"unknown"\<close> and the source is not compatible.
\<close>

theorem C6_codec_prober:
  "isCompatibleWithHls v a p = (video_ok v (strOrEmpty p) \<and> a = ''aac'')
   \<and> determineTranscodingStrategy v a p =
       (if video_ok v (strOrEmpty p) \<and> a = ''aac'' then Copy
        else if video_ok v (strOrEmpty p) then Selective else Reencode)
   \<and> (case out of
        None \<Rightarrow> recommendedStrategy (probeOrFallback out) = Reencode
                \<and> videoCodec (probeOrFallback out) = ''unknown''
                \<and> audioCodec (probeOrFallback out) = ''unknown''
                \<and> \<not> isHlsCompatible (probeOrFallback out)
      | Some data \<Rightarrow>
          (let info = probeOrFallback out;
               vok = video_ok (videoCodec info) (strOrEmpty (videoProfile info))
           in isHlsCompatible info = (vok \<and> audioCodec info = ''aac'')
              \<and> recommendedStrategy info =
                  (if vok \<and> audioCodec info = ''aac'' then Copy
                   else if vok then Selective else Reencode)))"
proof -
  have c: "case out of
        None \<Rightarrow> recommendedStrategy (probeOrFallback out) = Reencode
                \<and> videoCodec (probeOrFallback out) = ''unknown''
                \<and> audioCodec (probeOrFallback out) = ''unknown''
                \<and> \<not> isHlsCompatible (probeOrFallback out)
      | Some data \<Rightarrow>
          (let info = probeOrFallback out;
               vok = video_ok (videoCodec info) (strOrEmpty (videoProfile info))
           in isHlsCompatible info = (vok \<and> audioCodec info = ''aac'')
              \<and> recommendedStrategy info =
                  (if vok \<and> audioCodec info = ''aac'' then Copy
                   else if vok then Selective else Reencode))"
  proof (cases out)
    case None
    then show ?thesis
      by (simp add: probeOrFallback_def probeVideoCodecs_def unknownCodecInfo_def)
  next
    case (Some data)
    then show ?thesis
      by (simp add: probeOrFallback_def probeVideoCodecs_def Let_def compat_eq strategy_eq
          strOrEmpty_def)
  qed
  show ?thesis using compat_eq strategy_eq c by simp
qed

theorem C6_codec_prober_witness:
  "isCompatibleWithHls ''h264'' ''aac'' (Some ''Main'')
   \<and> determineTranscodingStrategy ''h264'' ''mp3'' (Some ''Main'') = Selective
   \<and> recommendedStrategy (probeOrFallback None) = Reencode
   \<and> recommendedStrategy (probeOrFallback (Some webm_probe)) = Reencode"
  using C6_codec_prober [of "''h264''" "''aac''" "Some ''Main''" None]
        C6_codec_prober [of "''h264''" "''mp3''" "Some ''Main''" "Some webm_probe"]
  by (simp add: video_ok_def strOrEmpty_def lower_samples hls_profiles_def
      Let_def probeOrFallback_def probeVideoCodecs_def webm_probe_def)

text \<open>
  The claim as stated asks for the profile to be one of the four names. A stream without a
  profile, and the profile \<open>High\<close> as the probe prints it, are accepted although neither
  is one of the four names.
\<close>

theorem C6_counterexample:
  "(case probeVideoCodecs (Some bare_h264_probe) of
      Inl err \<Rightarrow> False
    | Inr info \<Rightarrow> isHlsCompatible info \<and> recommendedStrategy info = Copy
                  \<and> videoCodec info = ''h264'' \<and> audioCodec info = ''aac''
                  \<and> videoProfile info = Some [] \<and> [] \<notin> set hls_profiles)
   \<and> isCompatibleWithHls ''h264'' ''aac'' (Some ''High'') \<and> ''High'' \<notin> set hls_profiles"
  by (simp add: probeVideoCodecs_def bare_h264_probe_def strOrEmpty_def
      isCompatibleWithHls_def determineTranscodingStrategy_def orNull_def hls_profiles_def
      lower_samples Let_def)

section \<open>The progress written by a run in which every step succeeds\<close>

lemma pw_emit:
  "progress_writes i (trace (emit (Write j n) w)) =
     progress_writes i (trace w) @ (if j = i then [n] else [])"
  "progress_writes i (trace (emit (Chan c) w)) = progress_writes i (trace w)"
  "progress_writes i (trace (emit (Exec x) w)) = progress_writes i (trace w)"
  "progress_writes i (trace (emit (Put k t) w)) = progress_writes i (trace w)"
  "progress_writes i (trace (emit (Post u p) w)) = progress_writes i (trace w)"
  "progress_writes i (trace (emit (Cleanup a b) w)) = progress_writes i (trace w)"
  by (simp_all add: emit_def progress_writes_def)

lemma running_emit: "running (emit ev w) i n = running w i n"
  by (simp add: running_def emit_def)

lemma update_if_running:
  assumes "i \<noteq> []" and "running w i m" and "p_status p = None"
  shows "running (update_if e (Some i) p w) i (case p_progress p of None \<Rightarrow> m | Some n \<Rightarrow> n)
       \<and> progress_writes i (trace (update_if e (Some i) p w)) =
           progress_writes i (trace w) @ [case p_progress p of None \<Rightarrow> m | Some n \<Rightarrow> n]"
proof -
  from assms(2) obtain r where r: "store w i = Some r" "status r = Processing" "progress r = m"
    by (auto simp: running_def)
  have a: "update_if e (Some i) p w = snd (w_update e i p w)"
    using assms(1) by (simp add: update_if_def orNull_Some)
  have b: "progress (applyUpdates (clock e) r p) = (case p_progress p of None \<Rightarrow> m | Some n \<Rightarrow> n)"
    using r assms(3) by (simp add: applyUpdates_def spread_def Let_def split: option.splits)
  have c: "status (applyUpdates (clock e) r p) = Processing"
    using r assms(3) by (simp add: applyUpdates_def spread_def Let_def)
  show ?thesis
    using r a b c
    by (simp add: w_update_Some pw_emit running_emit) (simp add: running_def toRow_def)
qed

lemma update_progress_running:
  assumes "i \<noteq> []" and "running w i m"
  shows "running (update_if e (Some i) (progress_patch n) w) i n"
    and "progress_writes i (trace (update_if e (Some i) (progress_patch n) w)) =
           progress_writes i (trace w) @ [n]"
  using update_if_running [OF assms, of "progress_patch n" e]
  by (simp_all add: progress_patch_def no_patch_def)

lemma update_mp4_running:
  assumes "i \<noteq> []" and "running w i m"
  shows "running (update_if e (Some i) (no_patch\<lparr> p_mp4Url := Some u \<rparr>) w) i m"
    and "progress_writes i (trace (update_if e (Some i) (no_patch\<lparr> p_mp4Url := Some u \<rparr>) w)) =
           progress_writes i (trace w) @ [m]"
  using update_if_running [OF assms, of "no_patch\<lparr> p_mp4Url := Some u \<rparr>" e]
  by (simp_all add: no_patch_def)

lemma precheck_running:
  assumes "i \<noteq> []" and "running w i m"
  shows "tu_precheck e (Some i) w = (None, w)"
  using assms by (auto simp: tu_precheck_def running_def orNull_Some getVideoRecord_def)

lemma try_running:
  assumes "all_ok e" and "i \<noteq> []" and "running w i m"
  shows "fst (tu_try e cmd lp od (Some i) w) = True"
    and "running (snd (tu_try e cmd lp od (Some i) w)) i 75"
    and "progress_writes i (trace (snd (tu_try e cmd lp od (Some i) w))) =
           progress_writes i (trace w) @ [60, 75]"
proof -
  define w1 where "w1 = emit (Exec cmd) w"
  define w2 where "w2 = update_if e (Some i) (progress_patch 60) w1"
  define w3 where "w3 = emit (Exec (thumbnailCommand lp (od @ ''/thumbnail.jpg''))) w2"
  define w4 where "w4 = update_if e (Some i) (progress_patch 75) w3"
  have eq: "tu_try e cmd lp od (Some i) w = (True, w4)"
    using assms(1) by (simp add: tu_try_def all_ok_def Let_def w1_def w2_def w3_def w4_def)
  have r1: "running w1 i m" using assms(3) by (simp add: w1_def running_emit)
  have r2: "running w2 i 60" unfolding w2_def by (rule update_progress_running(1) [OF assms(2) r1])
  have p2: "progress_writes i (trace w2) = progress_writes i (trace w) @ [60]"
    unfolding w2_def using update_progress_running(2) [OF assms(2) r1]
    by (simp add: w1_def pw_emit)
  have r3: "running w3 i 60" using r2 by (simp add: w3_def running_emit)
  have r4: "running w4 i 75" unfolding w4_def by (rule update_progress_running(1) [OF assms(2) r3])
  have p4: "progress_writes i (trace w4) = progress_writes i (trace w) @ [60, 75]"
    unfolding w4_def using update_progress_running(2) [OF assms(2) r3] p2
    by (simp add: w3_def pw_emit)
  show "fst (tu_try e cmd lp od (Some i) w) = True" using eq by simp
  show "running (snd (tu_try e cmd lp od (Some i) w)) i 75" using eq r4 by simp
  show "progress_writes i (trace (snd (tu_try e cmd lp od (Some i) w))) =
           progress_writes i (trace w) @ [60, 75]" using eq p4 by simp
qed

lemma hls_running:
  assumes "all_ok e" and "i \<noteq> []" and "running w i m"
  shows "fst (tu_hls e strat lp od (Some i) w) = Inr ()"
    and "running (snd (tu_hls e strat lp od (Some i) w)) i 75"
    and "progress_writes i (trace (snd (tu_hls e strat lp od (Some i) w))) =
           progress_writes i (trace w) @ [60, 75]"
proof -
  let ?t = "tu_try e (buildOptimizedFFmpegCommand strat lp (od @ ''/index.m3u8'')) lp od (Some i) w"
  have eq: "tu_hls e strat lp od (Some i) w = (Inr (), snd ?t)"
    using try_running(1) [OF assms, of "buildOptimizedFFmpegCommand strat lp (od @ ''/index.m3u8'')" lp od]
    by (cases ?t) (simp add: tu_hls_def Let_def)
  show "fst (tu_hls e strat lp od (Some i) w) = Inr ()" using eq by simp
  show "running (snd (tu_hls e strat lp od (Some i) w)) i 75"
    using eq try_running(2) [OF assms] by simp
  show "progress_writes i (trace (snd (tu_hls e strat lp od (Some i) w))) =
           progress_writes i (trace w) @ [60, 75]"
    using eq try_running(3) [OF assms] by simp
qed

lemma mp4_running:
  assumes "all_ok e" and "i \<noteq> []" and "running w i m"
  shows "running (tu_mp4 cfg e info lp od pre (Some i) w) i 85"
    and "progress_writes i (trace (tu_mp4 cfg e info lp od pre (Some i) w)) =
           progress_writes i (trace w)
           @ (if includes_str (containerFormat info) ''mp4'' then [] else [70]) @ [85, 85]"
proof -
  define wc where "wc = (if includes_str (containerFormat info) ''mp4'' then w
        else update_if e (Some i) (progress_patch 70)
               (emit (Exec (mp4Command lp (od @ ''/video.mp4''))) w))"
  define w3 where "w3 = emit (Put (pre @ ''/video.mp4'') ''video/mp4'') wc"
  define w4 where "w4 = update_if e (Some i) (progress_patch 85) w3"
  define w5 where "w5 = update_if e (Some i)
        (no_patch\<lparr> p_mp4Url := Some (S3_BUCKET cfg @ ''.'' @ S3_ENDPOINT cfg @ ''/'' @ pre @ ''/video.mp4'') \<rparr>) w4"
  have eq: "tu_mp4 cfg e info lp od pre (Some i) w = w5"
    using assms(1)
    by (simp add: tu_mp4_def all_ok_def Let_def wc_def w3_def w4_def w5_def)
  have re: "running (emit (Exec (mp4Command lp (od @ ''/video.mp4''))) w) i m"
    using assms(3) by (simp add: running_emit)
  have rc: "\<exists>k. running wc i k"
    using assms(3) update_progress_running(1) [OF assms(2) re, of e 70]
    by (auto simp: wc_def)
  have pc: "progress_writes i (trace wc) = progress_writes i (trace w)
           @ (if includes_str (containerFormat info) ''mp4'' then [] else [70])"
    using update_progress_running(2) [OF assms(2) re, of e 70]
    by (simp add: wc_def pw_emit)
  from rc obtain k where rk: "running wc i k" by blast
  have r3: "running w3 i k" using rk by (simp add: w3_def running_emit)
  have r4: "running w4 i 85" unfolding w4_def by (rule update_progress_running(1) [OF assms(2) r3])
  have p4: "progress_writes i (trace w4) = progress_writes i (trace wc) @ [85]"
    unfolding w4_def using update_progress_running(2) [OF assms(2) r3]
    by (simp add: w3_def pw_emit)
  have r5: "running w5 i 85" unfolding w5_def by (rule update_mp4_running(1) [OF assms(2) r4])
  have p5: "progress_writes i (trace w5) = progress_writes i (trace w4) @ [85]"
    unfolding w5_def by (rule update_mp4_running(2) [OF assms(2) r4])
  show "running (tu_mp4 cfg e info lp od pre (Some i) w) i 85" using eq r5 by simp
  show "progress_writes i (trace (tu_mp4 cfg e info lp od pre (Some i) w)) =
           progress_writes i (trace w)
           @ (if includes_str (containerFormat info) ''mp4'' then [] else [70]) @ [85, 85]"
    using eq p5 p4 pc by simp
qed


lemma upload_entries_flat:
  assumes "all_ok e" and "tot \<le> 10"
  shows "list_all is_regular files \<Longrightarrow>
         upload_entries e u tot pre files n w =
           (Inr (), w\<lparr> trace := trace w @ map (\<lambda>x. case x of RegFile f \<Rightarrow> Put (pre @ ''/'' @ f) (contentTypeOf f)
                                                     | SubDir d sub \<Rightarrow> Put [] []) files \<rparr>)"
proof (induction files arbitrary: n w)
  case Nil
  then show ?case by simp
next
  case (Cons x xs)
  then obtain f where x: "x = RegFile f" by (cases x) (simp_all add: is_regular_def)
  have "list_all is_regular xs" using Cons.prems by simp
  from Cons.IH [OF this] show ?case
    using assms x by (simp add: all_ok_def Let_def emit_def)
qed

lemma upload_running:
  assumes "all_ok e" and "i \<noteq> []" and "running w i m"
    and "readdir e od = Some files" and "list_all is_regular files" and "length files \<le> 10"
  shows "fst (tu_upload cfg e info od pre (Some i) w) =
           Inr (S3_BUCKET cfg @ ''.'' @ S3_ENDPOINT cfg @ ''/'' @ pre @ ''/index.m3u8'')"
    and "running (snd (tu_upload cfg e info od pre (Some i) w)) i 95"
    and "progress_writes i (trace (snd (tu_upload cfg e info od pre (Some i) w))) =
           progress_writes i (trace w) @ [if recommendedStrategy info = Copy then 85 else 80, 95]"
proof -
  define k where "k = (if recommendedStrategy info = Copy then 85 else (80::int))"
  define w1 where "w1 = update_if e (Some i) (progress_patch k) w"
  define w2 where "w2 = w1\<lparr> trace := trace w1 @ map (\<lambda>x. case x of RegFile f \<Rightarrow> Put (pre @ ''/'' @ f) (contentTypeOf f)
                                                     | SubDir d sub \<Rightarrow> Put [] []) files \<rparr>"
  define w3 where "w3 = update_if e (Some i) (progress_patch 95) w2"
  have tot: "length (filter is_regular files) \<le> 10"
    using assms(6) by (meson le_trans length_filter_le)
  have uf: "uploadFile e od pre (Some i) w1 = (Inr (), w2)"
    using assms(4) upload_entries_flat [OF assms(1) tot assms(5), of "Some i" pre 0 w1]
    by (simp add: uploadFile_def w2_def)
  have eq: "tu_upload cfg e info od pre (Some i) w =
              (Inr (S3_BUCKET cfg @ ''.'' @ S3_ENDPOINT cfg @ ''/'' @ pre @ ''/index.m3u8''),
               emit (Put (pre @ ''/metadata.json'') ''application/json'') w3)"
    using assms(1) uf
    by (simp add: tu_upload_def Let_def all_ok_def w1_def w3_def k_def)
  have r1: "running w1 i k" unfolding w1_def by (rule update_progress_running(1) [OF assms(2,3)])
  have p1: "progress_writes i (trace w1) = progress_writes i (trace w) @ [k]"
    unfolding w1_def by (rule update_progress_running(2) [OF assms(2,3)])
  have r2: "running w2 i k" using r1 by (simp add: w2_def running_def)
  have pm: "progress_writes i (map (\<lambda>x. case x of RegFile f \<Rightarrow> Put (pre @ ''/'' @ f) (contentTypeOf f)
                                                     | SubDir d sub \<Rightarrow> Put [] []) files) = []"
    by (induction files) (simp_all add: progress_writes_def split: dir_entry.splits)
  have p2: "progress_writes i (trace w2) = progress_writes i (trace w) @ [k]"
    using p1 pm by (simp add: w2_def progress_writes_def)
  have r3: "running w3 i 95" unfolding w3_def by (rule update_progress_running(1) [OF assms(2) r2])
  have p3: "progress_writes i (trace w3) = progress_writes i (trace w) @ [k, 95]"
    unfolding w3_def using update_progress_running(2) [OF assms(2) r2] p2 by simp
  show "fst (tu_upload cfg e info od pre (Some i) w) =
           Inr (S3_BUCKET cfg @ ''.'' @ S3_ENDPOINT cfg @ ''/'' @ pre @ ''/index.m3u8'')"
    using eq by simp
  show "running (snd (tu_upload cfg e info od pre (Some i) w)) i 95"
    using eq r3 by (simp add: running_emit)
  show "progress_writes i (trace (snd (tu_upload cfg e info od pre (Some i) w))) =
           progress_writes i (trace w) @ [if recommendedStrategy info = Copy then 85 else 80, 95]"
    using eq p3 by (simp add: pw_emit k_def)
qed

lemma publish_running:
  assumes "i \<noteq> []" and "running w i m"
  shows "tu_publish cfg e info od pre (Some i) w = tu_upload cfg e info od pre (Some i) w"
  using assms by (auto simp: tu_publish_def running_def orNull_Some getVideoRecord_def)

lemma transcode_running:
  assumes "all_ok e" and "i \<noteq> []" and "running w i m"
    and "readdir e (cwd e @ ''/controllers/videos/'' @ i) = Some files"
    and "list_all is_regular files" and "length files \<le> 10"
  shows "fst (transcodeAndUpload cfg e lp fname (Some i) path toS3 w) =
           Inr (S3_BUCKET cfg @ ''.'' @ S3_ENDPOINT cfg @ ''/'' @ s3PrefixOf path i @ ''/index.m3u8'')"
    and "running (snd (transcodeAndUpload cfg e lp fname (Some i) path toS3 w)) i 95"
    and "progress_writes i (trace (snd (transcodeAndUpload cfg e lp fname (Some i) path toS3 w))) =
           progress_writes i (trace w) @ run_progress toS3 (probeOrFallback (ffprobe e lp))"
proof -
  define od where "od = cwd e @ ''/controllers/videos/'' @ i"
  define info where "info = probeOrFallback (ffprobe e lp)"
  define pre where "pre = s3PrefixOf path i"
  define w2 where "w2 = update_if e (Some i) (progress_patch 25) w"
  define w3 where "w3 = snd (tu_hls e (recommendedStrategy info) lp od (Some i) w2)"
  define w4 where "w4 = (if toS3 then tu_mp4 cfg e info lp od pre (Some i) w3 else w3)"
  have r2: "running w2 i 25" unfolding w2_def by (rule update_progress_running(1) [OF assms(2,3)])
  have p2: "progress_writes i (trace w2) = progress_writes i (trace w) @ [25]"
    unfolding w2_def by (rule update_progress_running(2) [OF assms(2,3)])
  have h: "tu_hls e (recommendedStrategy info) lp od (Some i) w2 = (Inr (), w3)"
    using hls_running(1) [OF assms(1,2) r2, of "recommendedStrategy info" lp od]
    by (simp add: w3_def prod_eq_iff)
  have r3: "running w3 i 75" unfolding w3_def by (rule hls_running(2) [OF assms(1,2) r2])
  have p3: "progress_writes i (trace w3) = progress_writes i (trace w) @ [25, 60, 75]"
    unfolding w3_def using hls_running(3) [OF assms(1,2) r2, of "recommendedStrategy info" lp od] p2
    by simp
  have r4: "\<exists>k. running w4 i k"
    using r3 mp4_running(1) [OF assms(1,2) r3, of cfg info lp od pre] by (auto simp: w4_def)
  have p4: "progress_writes i (trace w4) = progress_writes i (trace w) @ [25, 60, 75]
        @ (if toS3 then (if includes_str (containerFormat info) ''mp4'' then [] else [70]) @ [85, 85]
           else [])"
    using p3 mp4_running(2) [OF assms(1,2) r3, of cfg info lp od pre] by (simp add: w4_def)
  from r4 obtain k where rk: "running w4 i k" by blast
  have eq: "transcodeAndUpload cfg e lp fname (Some i) path toS3 w =
              tu_upload cfg e info od pre (Some i) w4"
    using assms(1,2) precheck_running [OF assms(2,3), of e] h
      publish_running [OF assms(2) rk, of cfg e info od pre]
    by (cases toS3)
       (simp_all add: transcodeAndUpload_def Let_def orNull_Some all_ok_def od_def info_def
        pre_def w2_def w4_def)
  have f: "readdir e od = Some files" using assms(4) by (simp add: od_def)
  show "fst (transcodeAndUpload cfg e lp fname (Some i) path toS3 w) =
           Inr (S3_BUCKET cfg @ ''.'' @ S3_ENDPOINT cfg @ ''/'' @ s3PrefixOf path i @ ''/index.m3u8'')"
    using eq upload_running(1) [OF assms(1,2) rk f assms(5,6)] by (simp add: pre_def)
  show "running (snd (transcodeAndUpload cfg e lp fname (Some i) path toS3 w)) i 95"
    using eq upload_running(2) [OF assms(1,2) rk f assms(5,6)] by simp
  show "progress_writes i (trace (snd (transcodeAndUpload cfg e lp fname (Some i) path toS3 w))) =
           progress_writes i (trace w) @ run_progress toS3 (probeOrFallback (ffprobe e lp))"
    using eq upload_running(3) [OF assms(1,2) rk f assms(5,6), of cfg info pre] p4
    by (simp add: run_progress_def info_def)
qed

section \<open>The end of a job: terminal status, cleanup, webhook\<close>

lemma posts_emit:
  "posts (trace (emit (Post u p) w)) = posts (trace w) @ [(u, p)]"
  "posts (trace (emit (Chan c) w)) = posts (trace w)"
  "posts (trace (emit (Write i n) w)) = posts (trace w)"
  "posts (trace (emit (Exec x) w)) = posts (trace w)"
  "posts (trace (emit (Put k t) w)) = posts (trace w)"
  "posts (trace (emit (Cleanup a b) w)) = posts (trace w)"
  by (simp_all add: emit_def posts_def)

lemma store_emit: "store (emit ev w) = store w"
  by (simp add: emit_def)

lemma send_webhook_effect:
  assumes "store w i = Some r"
  shows "\<exists>r'. store (send_webhook e i cb pl w) = (store w)(i \<mapsto> r')
        \<and> posts (trace (send_webhook e i cb pl w)) = posts (trace w) @ [(cb, pl)]
        \<and> progress_writes i (trace (send_webhook e i cb pl w)) =
            progress_writes i (trace w) @ [progress r]
        \<and> status r' = status r \<and> progress r' = progress r
        \<and> cb3 r' = (if http_post e cb pl = Responded 200
                     then (CbCompleted, callbackRetryCount r, Some (clock e))
                     else (callbackStatus r, 1, Some (clock e)))"
proof -
  define p where "p = (if http_post e cb pl = Responded 200
      then no_patch\<lparr> p_callbackStatus := Some CbCompleted, p_callbackLastAttempt := Some (clock e) \<rparr>
      else no_patch\<lparr> p_callbackRetryCount := Some 1, p_callbackLastAttempt := Some (clock e) \<rparr>)"
  define a where "a = applyUpdates (clock e) r p"
  have s: "store (emit (Post cb pl) w) i = Some r" using assms by (simp add: store_emit)
  have sw: "send_webhook e i cb pl w = snd (w_update e i p (emit (Post cb pl) w))"
    by (cases "http_post e cb pl") (simp_all add: send_webhook_def Let_def p_def)
  have eq: "send_webhook e i cb pl w =
      emit (Write i (progress a)) (emit (Post cb pl) w\<lparr> store := (store w)(i \<mapsto> toRow a) \<rparr>)"
    unfolding sw by (simp add: w_update_Some [OF s] a_def store_emit)
  have fa: "status (toRow a) = status r" "progress (toRow a) = progress r" "progress a = progress r"
     "cb3 (toRow a) = (if http_post e cb pl = Responded 200
                     then (CbCompleted, callbackRetryCount r, Some (clock e))
                     else (callbackStatus r, 1, Some (clock e)))"
    by (simp_all add: a_def p_def applyUpdates_def spread_def toRow_def no_patch_def cb3_def Let_def)
  have "store (send_webhook e i cb pl w) = (store w)(i \<mapsto> toRow a)"
    by (simp add: eq store_emit)
  moreover have "posts (trace (send_webhook e i cb pl w)) = posts (trace w) @ [(cb, pl)]"
    by (simp add: eq posts_emit)
  moreover have "progress_writes i (trace (send_webhook e i cb pl w)) =
            progress_writes i (trace w) @ [progress r]"
    by (simp add: eq pw_emit fa)
  ultimately show ?thesis using fa by blast
qed

lemma finish_effect:
  assumes "store w i = Some r"
    and "p_callbackStatus p = None" "p_callbackRetryCount p = None"
        "p_callbackLastAttempt p = None"
    and "p_status p = Some s" 
    and "w_update e i p w = (u, w1)"
    and "w' = (case (orNull cbo, u) of
                 (Some cb, Some x) \<Rightarrow> send_webhook e i cb (pl x) (cleanupVideoFiles i fp w1)
               | _ \<Rightarrow> cleanupVideoFiles i fp w1)"
  shows "\<exists>r'. store w' = (store w)(i \<mapsto> r') \<and> status r' = s
           \<and> webhook_outcome e cbo r w r' w'
           \<and> progress_writes i (trace w') = progress_writes i (trace w)
                @ [progress r'] @ (if orNull cbo = None then [] else [progress r'])
           \<and> progress r' = (case p_progress p of None \<Rightarrow> progress r | Some n \<Rightarrow> n)"
proof -
  define a where "a = applyUpdates (clock e) r p"
  have u: "u = Some a" and w1: "w1 = emit (Write i (progress a)) (w\<lparr> store := (store w)(i \<mapsto> toRow a) \<rparr>)"
    using assms(6) w_update_Some [OF assms(1), of e p] by (simp_all add: a_def)
  define w2 where "w2 = cleanupVideoFiles i fp w1"
  have s2: "store w2 i = Some (toRow a)" "store w2 = (store w)(i \<mapsto> toRow a)"
    by (simp_all add: w2_def w1 cleanupVideoFiles_def store_emit)
  have p2: "posts (trace w2) = posts (trace w)"
    by (simp add: w2_def w1 cleanupVideoFiles_def posts_emit)
  have pw2: "progress_writes i (trace w2) = progress_writes i (trace w) @ [progress a]"
    by (simp add: w2_def w1 cleanupVideoFiles_def pw_emit)
  have fa: "status (toRow a) = s" "cb3 (toRow a) = cb3 r" "progress (toRow a) = progress a"
       "progress a = (case p_progress p of None \<Rightarrow> progress r | Some n \<Rightarrow> n)"
       "callbackRetryCount (toRow a) = callbackRetryCount r"
       "callbackStatus (toRow a) = callbackStatus r"
    using assms(2-5)
    by (simp_all add: a_def applyUpdates_def spread_def toRow_def cb3_def Let_def)
  show ?thesis
  proof (cases "orNull cbo")
    case None
    then have "w' = w2" using assms(7) by (simp add: w2_def)
    then show ?thesis using None s2 p2 pw2 fa
      by (auto simp: webhook_outcome_def)
  next
    case (Some cb)
    then have e: "w' = send_webhook e i cb (pl a) w2" using assms(7) u by (simp add: w2_def)
    from send_webhook_effect [OF s2(1), of e cb "pl a"]
    obtain r' where r': "store w' = (store w2)(i \<mapsto> r')"
        "posts (trace w') = posts (trace w2) @ [(cb, pl a)]"
        "progress_writes i (trace w') = progress_writes i (trace w2) @ [progress (toRow a)]"
        "status r' = status (toRow a)" "progress r' = progress (toRow a)"
        "cb3 r' = (if http_post e cb (pl a) = Responded 200
                     then (CbCompleted, callbackRetryCount (toRow a), Some (clock e))
                     else (callbackStatus (toRow a), 1, Some (clock e)))"
      unfolding e by blast
    have "store w' = (store w)(i \<mapsto> r')" using r'(1) s2(2) by simp
    moreover have "webhook_outcome e cbo r w r' w'"
      unfolding webhook_outcome_def using Some r'(2,6) p2 fa by auto
    ultimately show ?thesis using r' fa pw2 Some by auto
  qed
qed

lemma on_success_effect:
  assumes "store w i = Some r"
  shows "\<exists>r'. store (on_success cfg e job i url w) = (store w)(i \<mapsto> r') \<and> status r' = Completed
           \<and> webhook_outcome e (job_callbackUrl job) r w r' (on_success cfg e job i url w)
           \<and> progress_writes i (trace (on_success cfg e job i url w)) =
                progress_writes i (trace w) @ [100]
                @ (if orNull (job_callbackUrl job) = None then [] else [100])"
proof -
  let ?p = "no_patch\<lparr> p_status := Some Completed, p_progress := Some 100,
                           p_streamUrl := Some url, p_thumbnailUrl := Some (S3_BUCKET cfg @ ''.'' @ S3_ENDPOINT cfg @ ''/'' @ s3PrefixOf (job_s3Path job) i
                     @ ''/thumbnail.jpg'') \<rparr>"
  obtain u w1 where h: "w_update e i ?p w = (u, w1)" by (cases "w_update e i ?p w")
  have d: "on_success cfg e job i url w =
           (case (orNull (job_callbackUrl job), u) of
                 (Some cb, Some x) \<Rightarrow> send_webhook e i cb
                     (CompletedPayload i (job_filename job) url (S3_BUCKET cfg @ ''.'' @ S3_ENDPOINT cfg @ ''/'' @ s3PrefixOf (job_s3Path job) i
                     @ ''/thumbnail.jpg'') (orNull (mp4Url x))) (cleanupVideoFiles i (job_filePath job) w1)
               | _ \<Rightarrow> cleanupVideoFiles i (job_filePath job) w1)"
    using h by (simp add: on_success_def Let_def split: option.splits)
  from finish_effect [OF assms _ _ _ _ h d, of Completed]
  show ?thesis by (auto simp: no_patch_def)
qed

lemma on_failure_effect:
  assumes "store w i = Some r"
  shows "\<exists>r'. store (on_failure e job i err w) = (store w)(i \<mapsto> r') \<and> status r' = Failed
           \<and> webhook_outcome e (job_callbackUrl job) r w r' (on_failure e job i err w)
           \<and> progress_writes i (trace (on_failure e job i err w)) =
                progress_writes i (trace w) @ [progress r]
                @ (if orNull (job_callbackUrl job) = None then [] else [progress r])"
proof -
  let ?p = "no_patch\<lparr> p_status := Some Failed, p_error := Some (Some err) \<rparr>"
  obtain u w1 where h: "w_update e i ?p w = (u, w1)" by (cases "w_update e i ?p w")
  have d: "on_failure e job i err w =
           (case (orNull (job_callbackUrl job), u) of
                 (Some cb, Some x) \<Rightarrow> send_webhook e i cb
                     (FailedPayload i (job_filename job) err) (cleanupVideoFiles i (job_filePath job) w1)
               | _ \<Rightarrow> cleanupVideoFiles i (job_filePath job) w1)"
    using h by (simp add: on_failure_def Let_def split: option.splits)
  from finish_effect [OF assms _ _ _ _ h d, of Failed]
  show ?thesis by (auto simp: no_patch_def)
qed

section \<open>One delivery, from acquisition to webhook\<close>

lemma transition_result:
  "safelyTransitionToProcessing i st =
     (case st i of
        None \<Rightarrow> ((False, None), st)
      | Some r \<Rightarrow>
          if transition_where r
          then ((True, Some (r\<lparr> status := Processing, progress := 10 \<rparr>)),
                st(i \<mapsto> r\<lparr> status := Processing, progress := 10 \<rparr>))
          else ((False, Some r), st))"
proof (cases "st i")
  case None
  then show ?thesis by (simp add: safelyTransitionToProcessing_def getVideoRecord_def)
next
  case (Some r)
  then show ?thesis
    by (cases "status r")
       (auto simp: safelyTransitionToProcessing_def getVideoRecord_def transition_update_cases
          transition_where_def)
qed

lemma handler_acquired:
  assumes "job_uploadId job = Some i" and "store w i = Some r" and "transition_where r"
  shows "handler cfg e (Job job) w =
           (case transcodeAndUpload cfg e (job_filePath job) (job_filename job) (Some i)
                   (job_s3Path job) (job_uploadToS3 job) (acquired i r w) of
              (Inr url, w2) \<Rightarrow> on_success cfg e job i url w2
            | (Inl err, w2) \<Rightarrow> on_failure e job i err w2)"
  using assms by (simp add: handler_def transition_result Let_def acquired_def)

lemma handler_not_acquired:
  assumes "job_uploadId job = Some i"
    and "\<not> (\<exists>r. store w i = Some r \<and> transition_where r)"
  shows "handler cfg e (Job job) w = emit (Chan Ack) w"
  using assms by (cases "store w i") (simp_all add: handler_def transition_result)

lemma acquired_facts:
  assumes "store w i = Some r" and "transition_where r"
  shows "running (acquired i r w) i 10"
    and "progress_writes i (trace (acquired i r w)) = progress_writes i (trace w) @ [10]"
    and "posts (trace (acquired i r w)) = posts (trace w)"
    and "map_option cb_view (store (acquired i r w) j) = map_option cb_view (store w j)"
proof -
  show "running (acquired i r w) i 10"
    by (simp add: acquired_def running_def store_emit)
  show "progress_writes i (trace (acquired i r w)) = progress_writes i (trace w) @ [10]"
    by (simp add: acquired_def pw_emit)
  show "posts (trace (acquired i r w)) = posts (trace w)"
    by (simp add: acquired_def posts_emit)
  have "status r \<noteq> Completed" using assms(2) by (auto simp: transition_where_def)
  then show "map_option cb_view (store (acquired i r w) j) = map_option cb_view (store w j)"
    using assms(1) by (simp add: acquired_def store_emit cb_view_def)
qed

lemma webhook_outcome_cong:
  assumes "cb3 r2 = cb3 r" and "posts (trace w2) = posts (trace w)"
  shows "webhook_outcome e cbo r2 w2 r' w' = webhook_outcome e cbo r w r' w'"
proof -
  have "callbackRetryCount r2 = callbackRetryCount r" "callbackStatus r2 = callbackStatus r"
    using assms(1) by (simp_all add: cb3_def)
  then show ?thesis using assms by (simp add: webhook_outcome_def split: option.splits)
qed

lemma handler_effect:
  assumes "job_uploadId job = Some i" and "store w i = Some r" and "transition_where r"
  shows "\<exists>r'. store (handler cfg e (Job job) w) i = Some r'
           \<and> (status r' = Completed \<or> status r' = Failed)
           \<and> webhook_outcome e (job_callbackUrl job) r w r' (handler cfg e (Job job) w)
           \<and> (\<forall>j. j \<noteq> i \<longrightarrow> map_option cb_view (store (handler cfg e (Job job) w) j)
                                = map_option cb_view (store w j))"
proof -
  let ?w1 = "acquired i r w"
  let ?t = "transcodeAndUpload cfg e (job_filePath job) (job_filename job) (Some i)
                   (job_s3Path job) (job_uploadToS3 job) ?w1"
  obtain res w2 where t: "?t = (res, w2)" by (cases ?t)
  have o: "obs w2 = obs ?w1"
    using obs_transcodeAndUpload [of cfg e "job_filePath job" "job_filename job" "Some i"
        "job_s3Path job" "job_uploadToS3 job" ?w1] t by simp
  have p2: "posts (trace w2) = posts (trace w)"
    using o acquired_facts(3) [OF assms(2,3)] by (simp add: obs_def)
  have v2: "\<And>j. map_option cb_view (store w2 j) = map_option cb_view (store w j)"
    using o acquired_facts(4) [OF assms(2,3)] by (simp add: obs_def fun_eq_iff)
  from v2 [of i] assms(2) obtain r2 where r2: "store w2 i = Some r2" "cb_view r2 = cb_view r"
    by auto
  have c2: "cb3 r2 = cb3 r" "callbackRetryCount r2 = callbackRetryCount r"
       "callbackStatus r2 = callbackStatus r"
    using r2(2) by (simp_all add: cb_view_def cb3_def)
  define w' where "w' = handler cfg e (Job job) w"
  have h: "w' = (case res of Inr url \<Rightarrow> on_success cfg e job i url w2
                 | Inl err \<Rightarrow> on_failure e job i err w2)"
    using handler_acquired [OF assms, of cfg e] t by (simp add: w'_def split: sum.splits)
  have "\<exists>r'. store w' = (store w2)(i \<mapsto> r') \<and> (status r' = Completed \<or> status r' = Failed)
           \<and> webhook_outcome e (job_callbackUrl job) r2 w2 r' w'"
  proof (cases res)
    case (Inl err)
    then show ?thesis using h on_failure_effect [OF r2(1), of e job err] by auto
  next
    case (Inr url)
    then show ?thesis using h on_success_effect [OF r2(1), of cfg e job url] by auto
  qed
  then obtain r' where r': "store w' = (store w2)(i \<mapsto> r')"
      "status r' = Completed \<or> status r' = Failed"
      "webhook_outcome e (job_callbackUrl job) r2 w2 r' w'" by blast
  have wo: "webhook_outcome e (job_callbackUrl job) r w r' w'"
    using r'(3) webhook_outcome_cong [OF c2(1) p2] by simp
  have "\<forall>j. j \<noteq> i \<longrightarrow> map_option cb_view (store w' j) = map_option cb_view (store w j)"
    using r'(1) v2 by simp
  then show ?thesis using r' wo unfolding w'_def by auto
qed

lemma handler_progress:
  assumes "all_ok e" and "i \<noteq> []" and "job_uploadId job = Some i"
    and "store w i = Some r" and "transition_where r"
    and "readdir e (cwd e @ ''/controllers/videos/'' @ i) = Some files"
    and "list_all is_regular files" and "length files \<le> 10"
  shows "progress_writes i (trace (handler cfg e (Job job) w)) =
           progress_writes i (trace w) @ [10]
           @ run_progress (job_uploadToS3 job) (probeOrFallback (ffprobe e (job_filePath job)))
           @ [100] @ (if orNull (job_callbackUrl job) = None then [] else [100])"
proof -
  let ?w1 = "acquired i r w"
  let ?t = "transcodeAndUpload cfg e (job_filePath job) (job_filename job) (Some i)
                   (job_s3Path job) (job_uploadToS3 job) ?w1"
  note run = acquired_facts(1) [OF assms(4,5)]
  note tr = transcode_running [OF assms(1,2) run assms(6,7,8), of cfg "job_filePath job"
      "job_filename job" "job_s3Path job" "job_uploadToS3 job"]
  obtain url where u: "fst ?t = Inr url" using tr(1) by simp
  from tr(2) obtain r2 where r2: "store (snd ?t) i = Some r2" by (auto simp: running_def)
  have h: "handler cfg e (Job job) w = on_success cfg e job i url (snd ?t)"
    using handler_acquired [OF assms(3,4,5), of cfg e] u by (cases ?t) simp
  show ?thesis
    using on_success_effect [OF r2, of cfg e job url] tr(3) acquired_facts(2) [OF assms(4,5)]
    by (auto simp: h)
qed

lemma transcode_mkdir_fails:
  assumes "\<not> mkdir_ok e" and "i \<noteq> []" and "running w i m"
  shows "transcodeAndUpload cfg e lp fname (Some i) path toS3 w = (Inl (ext_message e), w)"
  using assms precheck_running [OF assms(2,3), of e]
  by (simp add: transcodeAndUpload_def Let_def)

lemma handler_mkdir_fails:
  assumes "\<not> mkdir_ok e" and "i \<noteq> []" and "job_uploadId job = Some i"
    and "store w i = Some r" and "transition_where r"
  shows "\<exists>r'. store (handler cfg e (Job job) w) i = Some r' \<and> status r' = Failed
           \<and> webhook_outcome e (job_callbackUrl job) r w r' (handler cfg e (Job job) w)"
proof -
  let ?w1 = "acquired i r w"
  note run = acquired_facts(1) [OF assms(4,5)]
  have h: "handler cfg e (Job job) w = on_failure e job i (ext_message e) ?w1"
    using handler_acquired [OF assms(3,4,5), of cfg e]
      transcode_mkdir_fails [OF assms(1,2) run, of cfg "job_filePath job" "job_filename job"
        "job_s3Path job" "job_uploadToS3 job"]
    by simp
  from run obtain r1 where r1: "store ?w1 i = Some r1" by (auto simp: running_def)
  have "r1 = r\<lparr> status := Processing, progress := 10 \<rparr>"
    using r1 by (simp add: acquired_def store_emit)
  then have c: "callbackRetryCount r1 = callbackRetryCount r" "callbackStatus r1 = callbackStatus r"
     "cb3 r1 = cb3 r" by (simp_all add: cb3_def)
  from on_failure_effect [OF r1, of e job "ext_message e"]
  obtain r' where r': "store (handler cfg e (Job job) w) = (store ?w1)(i \<mapsto> r')"
     "status r' = Failed"
     "webhook_outcome e (job_callbackUrl job) r1 ?w1 r' (handler cfg e (Job job) w)"
    unfolding h by blast
  have "webhook_outcome e (job_callbackUrl job) r w r' (handler cfg e (Job job) w)"
    using r'(3) webhook_outcome_cong [OF c(3) acquired_facts(3) [OF assms(4,5)]] by simp
  then show ?thesis using r'(1,2) by auto
qed

end
